theory Spec2Isabelle
  imports Complex_Main "HOL-Library.AList" "HOL-Library.Sublist"
begin

section \<open>Python values and exceptions\<close>

text \<open>
  The two notebooks are straight-line Python over strings, dictionaries and numpy arrays.
  Floating-point numbers are modelled as exact reals; every exception the code can raise is a
  value of \<open>py_error\<close>, and a computation that may raise returns \<open>py_error + 'a\<close>
  with \<open>Inl\<close> for the exception.
\<close>

datatype py_error = IndexError | KeyError | ValueError

definition bind_e :: "py_error + 'a \<Rightarrow> ('a \<Rightarrow> py_error + 'b) \<Rightarrow> py_error + 'b" where
  "bind_e m f = (case m of Inl e \<Rightarrow> Inl e | Inr v \<Rightarrow> f v)"

text \<open>\<^verbatim>\<open>xs[i]\<close> for an index \<open>i \<ge> 0\<close>: IndexError out of range.\<close>

definition item :: "'a list \<Rightarrow> nat \<Rightarrow> py_error + 'a" where
  "item xs i = (if i < length xs then Inr (xs ! i) else Inl IndexError)"

text \<open>\<^verbatim>\<open>d[k]\<close> for a dictionary kept as an association list in insertion order: KeyError
  for a missing key.\<close>

definition getitem :: "('k \<times> 'v) list \<Rightarrow> 'k \<Rightarrow> py_error + 'v" where
  "getitem d k = (case map_of d k of None \<Rightarrow> Inl KeyError | Some v \<Rightarrow> Inr v)"

text \<open>\<^verbatim>\<open>s.split(c)\<close> with an explicit one-character separator: every occurrence of the
  separator cuts, so consecutive separators give empty fields and the empty string gives one
  empty field.\<close>

fun split_on :: "char \<Rightarrow> string \<Rightarrow> string list" where
  "split_on c [] = [[]]"
| "split_on c (x # xs) =
     (if x = c then [] # split_on c xs
      else (case split_on c xs of [] \<Rightarrow> [[x]] | w # ws \<Rightarrow> (x # w) # ws))"

text \<open>\<^verbatim>\<open>float(s)\<close> is Python's built-in; it is a parameter \<open>flt\<close> of the model
  (\<open>None\<close> when Python raises ValueError).\<close>

definition to_float :: "(string \<Rightarrow> real option) \<Rightarrow> string \<Rightarrow> py_error + real" where
  "to_float flt s = (case flt s of None \<Rightarrow> Inl ValueError | Some r \<Rightarrow> Inr r)"

text \<open>
  A plain decimal reader (optional sign, digits, optional fraction), used to run the model on
  concrete files. Python's \<^verbatim>\<open>float\<close> accepts more (exponents, surrounding blanks,
  \<^verbatim>\<open>inf\<close>, \<^verbatim>\<open>nan\<close>) and rounds to the nearest binary floating-point number;
  this reader gives the decimal's exact value, and the files below hold only numbers that
  binary floating point represents exactly.
\<close>

definition digit_val :: "char \<Rightarrow> nat option" where
  "digit_val c =
     (let n = (of_char c :: nat) in if 48 \<le> n \<and> n \<le> 57 then Some (n - 48) else None)"

fun digits_nat :: "nat \<Rightarrow> string \<Rightarrow> nat option" where
  "digits_nat acc [] = Some acc"
| "digits_nat acc (c # cs) =
     (case digit_val c of None \<Rightarrow> None | Some v \<Rightarrow> digits_nat (10 * acc + v) cs)"

definition unsigned_dec :: "string \<Rightarrow> real option" where
  "unsigned_dec s =
     (let ip = takeWhile (\<lambda>c. c \<noteq> CHR ''.'') s;
          fp = drop 1 (dropWhile (\<lambda>c. c \<noteq> CHR ''.'') s)
      in if ip = [] \<and> fp = [] then None
         else (case (digits_nat 0 ip, digits_nat 0 fp) of
                 (Some a, Some b) \<Rightarrow> Some (real a + real b / 10 ^ length fp)
               | _ \<Rightarrow> None))"

definition float_dec :: "string \<Rightarrow> real option" where
  "float_dec s =
     (case s of
        [] \<Rightarrow> None
      | c # cs \<Rightarrow>
          if c = CHR ''-'' then map_option uminus (unsigned_dec cs)
          else if c = CHR ''+'' then unsigned_dec cs
          else unsigned_dec s)"

section \<open>Bandit notebook: parsing the forecast file\<close>

text \<open>
  \<^verbatim>\<open>
  forecast_dict = {}
  for line in range(1, len(contents)):
      line_split = contents[line].split(' ')
      try:
          forecast_dict[line_split[0], line_split[1]][line_split[2]] =
              {'MaxT':float(line_split[3]), 'MinT':float(line_split[4][:-1])}
      except:
          forecast_dict[line_split[0], line_split[1]] = {}
          forecast_dict[line_split[0], line_split[1]][line_split[2]] =
              {'MaxT':float(line_split[3]), 'MinT':float(line_split[4][:-1])}
  \<close>
  \<open>forecast_dict\<close> maps a station key (two strings) to a dictionary from the day string to
  the record of the two temperatures.
\<close>

record temps =
  MaxT :: real
  MinT :: real

type_synonym day_dict = "(string \<times> temps) list"
type_synonym station_key = "string \<times> string"
type_synonym forecast = "(station_key \<times> day_dict) list"

text \<open>The right-hand side of the assignment, evaluated before the target.\<close>

definition day_record :: "(string \<Rightarrow> real option) \<Rightarrow> string list \<Rightarrow> py_error + temps" where
  "day_record flt line_split =
     bind_e (item line_split 3) (\<lambda>s3.
     bind_e (to_float flt s3) (\<lambda>a.
     bind_e (item line_split 4) (\<lambda>s4.
     bind_e (to_float flt (butlast s4)) (\<lambda>b.
     Inr \<lparr>MaxT = a, MinT = b\<rparr>))))"

text \<open>The assignment statement that occurs in both branches: the record is computed, the
  station's dictionary is fetched (KeyError when the station is absent) and the day is
  stored in it.\<close>

definition store_day ::
  "(string \<Rightarrow> real option) \<Rightarrow> forecast \<Rightarrow> string list \<Rightarrow> py_error + forecast" where
  "store_day flt forecast_dict line_split =
     bind_e (day_record flt line_split) (\<lambda>r.
     bind_e (item line_split 0) (\<lambda>k0.
     bind_e (item line_split 1) (\<lambda>k1.
     bind_e (getitem forecast_dict (k0, k1)) (\<lambda>inner.
     bind_e (item line_split 2) (\<lambda>day.
     Inr (AList.update (k0, k1) (AList.update day r inner) forecast_dict))))))"

definition except_body ::
  "(string \<Rightarrow> real option) \<Rightarrow> forecast \<Rightarrow> string list \<Rightarrow> py_error + forecast" where
  "except_body flt forecast_dict line_split =
     bind_e (item line_split 0) (\<lambda>k0.
     bind_e (item line_split 1) (\<lambda>k1.
     store_day flt (AList.update (k0, k1) [] forecast_dict) line_split))"

text \<open>The bare \<^verbatim>\<open>except:\<close> is entered exactly when the \<^verbatim>\<open>try\<close> body raises,
  whatever it raises.\<close>

definition enters_except :: "(string \<Rightarrow> real option) \<Rightarrow> forecast \<Rightarrow> string \<Rightarrow> bool" where
  "enters_except flt forecast_dict line = isl (store_day flt forecast_dict (split_on CHR '' '' line))"

definition parse_line ::
  "(string \<Rightarrow> real option) \<Rightarrow> forecast \<Rightarrow> string \<Rightarrow> py_error + forecast" where
  "parse_line flt forecast_dict line =
     (let line_split = split_on CHR '' '' line
      in case store_day flt forecast_dict line_split of
           Inr d \<Rightarrow> Inr d
         | Inl _ \<Rightarrow> except_body flt forecast_dict line_split)"

fun parse_lines ::
  "(string \<Rightarrow> real option) \<Rightarrow> forecast \<Rightarrow> string list \<Rightarrow> py_error + forecast" where
  "parse_lines flt forecast_dict [] = Inr forecast_dict"
| "parse_lines flt forecast_dict (l # ls) =
     bind_e (parse_line flt forecast_dict l) (\<lambda>d. parse_lines flt d ls)"

text \<open>\<^verbatim>\<open>range(1, len(contents))\<close> visits every line but the first; it is empty for an
  empty file.\<close>

definition build_forecast_dict ::
  "(string \<Rightarrow> real option) \<Rightarrow> string list \<Rightarrow> py_error + forecast" where
  "build_forecast_dict flt contents = parse_lines flt [] (drop 1 contents)"

text \<open>The nested entries of the dictionary, as (station, day) pairs in storage order.\<close>

definition entries :: "forecast \<Rightarrow> (station_key \<times> string) list" where
  "entries d = concat (map (\<lambda>(k, inner). map (\<lambda>(day, r). (k, day)) inner) d)"

text \<open>The station key and the (station, day) pair a data line names.\<close>

definition line_key :: "string \<Rightarrow> station_key" where
  "line_key line = (let ls = split_on CHR '' '' line in (ls ! 0, ls ! 1))"

definition line_entry :: "string \<Rightarrow> station_key \<times> string" where
  "line_entry line = (let ls = split_on CHR '' '' line in ((ls ! 0, ls ! 1), ls ! 2))"

text \<open>A data line whose two temperature fields exist and parse.\<close>

definition temps_parse :: "(string \<Rightarrow> real option) \<Rightarrow> string \<Rightarrow> bool" where
  "temps_parse flt line = (\<not> isl (day_record flt (split_on CHR '' '' line)))"


text \<open>\<^verbatim>\<open>forecast_dict[k][day]\<close>, as a later cell reads it.\<close>

definition lookup2 :: "forecast \<Rightarrow> station_key \<Rightarrow> string \<Rightarrow> py_error + temps" where
  "lookup2 d k day = bind_e (getitem d k) (\<lambda>inner. getitem inner day)"

text \<open>The station's dictionary as the line's assignment finds it: the stored one, or the
  empty one the handler has just put there.\<close>

definition stored :: "forecast \<Rightarrow> station_key \<Rightarrow> day_dict" where
  "stored d k = (case map_of d k of None \<Rightarrow> [] | Some inner \<Rightarrow> inner)"

text \<open>A Python dictionary has each key once, at both levels.\<close>

definition wf_dict :: "forecast \<Rightarrow> bool" where
  "wf_dict d = (distinct (map fst d) \<and> list_all (\<lambda>p. distinct (map fst (snd p))) d)"

definition sample_file :: "string list" where
  "sample_file =
     [''lat lon day maxT minT\<newline>'',
      ''30.5 -100.25 0 20.5 10\<newline>'',
      ''30.5 -100.25 1 21 11.5\<newline>'',
      ''24 -80 0 30 25\<newline>'']"

section \<open>Bandit notebook: the station arrays\<close>

text \<open>
  \<^verbatim>\<open>
  keys = forecast_dict.keys()
  day_out = '0'  # 0-7
  temp = 'MaxT'  # MaxT or MinT
  temperature = []; lat = []; lon = []
  for key in keys:
      temperature.append(float(forecast_dict[key][day_out][temp]))
      lat.append(float(key[0]))
      lon.append(float(key[1]))
  \<close>
  The three lists grow together, one element per key. The stored temperature is a float
  already, so the outer \<^verbatim>\<open>float\<close> returns it unchanged.
\<close>

definition day_out :: string where
  "day_out = ''0''"

fun collect ::
  "(string \<Rightarrow> real option) \<Rightarrow> forecast \<Rightarrow> station_key list \<Rightarrow> real list \<times> real list \<times> real list
     \<Rightarrow> py_error + (real list \<times> real list \<times> real list)" where
  "collect flt forecast_dict [] acc = Inr acc"
| "collect flt forecast_dict (key # keys) (temperature, lat, lon) =
     bind_e (getitem forecast_dict key) (\<lambda>inner.
     bind_e (getitem inner day_out) (\<lambda>r.
     bind_e (to_float flt (fst key)) (\<lambda>la.
     bind_e (to_float flt (snd key)) (\<lambda>lo.
     collect flt forecast_dict keys (temperature @ [MaxT r], lat @ [la], lon @ [lo])))))"

definition station_arrays ::
  "(string \<Rightarrow> real option) \<Rightarrow> forecast \<Rightarrow> py_error + (real list \<times> real list \<times> real list)" where
  "station_arrays flt forecast_dict = collect flt forecast_dict (map fst forecast_dict) ([], [], [])"

text \<open>
  \<^verbatim>\<open>
  lon = np.array(lon)
  lat = np.array(lat)
  sel = np.logical_and(np.logical_and(lat>24,lat<51),np.logical_and(lon> -130, lon <-65))
  stations_coordinates_all = np.array([lon,lat]).T
  stations_maxT_all = np.array([temperature]).T
  stations_coordinates = stations_coordinates_all[sel,:]
  stations_maxT = stations_maxT_all[sel,:]
  \<close>
  A row of the coordinate array is the pair (longitude, latitude); the one-column temperature
  array is the list of its rows' single entries. \<open>lat\<close>, \<open>lon\<close> and \<open>temperature\<close>
  come out of the loop above with one element per station, so the element-wise operations and
  the mask meet arrays of one length.
\<close>

definition sel :: "real list \<Rightarrow> real list \<Rightarrow> bool list" where
  "sel lat lon = map2 (\<lambda>la lo. (la > 24 \<and> la < 51) \<and> (lo > -130 \<and> lo < -65)) lat lon"

definition stations_coordinates_all :: "real list \<Rightarrow> real list \<Rightarrow> (real \<times> real) list" where
  "stations_coordinates_all lon lat = zip lon lat"

definition stations_maxT_all :: "real list \<Rightarrow> real list" where
  "stations_maxT_all temperature = temperature"

text \<open>\<^verbatim>\<open>a[mask,:]\<close>: the rows at which the boolean mask is true, in order.\<close>

definition select_rows :: "'a list \<Rightarrow> bool list \<Rightarrow> 'a list" where
  "select_rows rows msk = map fst (filter snd (zip rows msk))"

definition stations_coordinates :: "real list \<Rightarrow> real list \<Rightarrow> (real \<times> real) list" where
  "stations_coordinates lon lat = select_rows (stations_coordinates_all lon lat) (sel lat lon)"

definition stations_maxT :: "real list \<Rightarrow> real list \<Rightarrow> real list \<Rightarrow> real list" where
  "stations_maxT temperature lat lon = select_rows (stations_maxT_all temperature) (sel lat lon)"

text \<open>The bounding box in words: both intervals open.\<close>

definition in_box :: "real \<Rightarrow> real \<Rightarrow> bool" where
  "in_box la lo = (24 < la \<and> la < 51 \<and> -130 < lo \<and> lo < -65)"

section \<open>Bandit notebook: the objective\<close>

text \<open>
  \<^verbatim>\<open>
  class max_Temp(object):
      def __init__(self,stations_coordinates,stations_maxT):
          self.stations_coordinates = stations_coordinates
          self.stations_maxT = stations_maxT

      def f(self,x):
          return np.dot(0.5*(self.stations_coordinates == x).sum(axis=1),self.stations_maxT)[:,None]
  \<close>
  \<open>x\<close> is the 1-by-2 array of one queried location, given here by its row. The comparison
  broadcasts \<open>x\<close> against every row, \<^verbatim>\<open>sum(axis=1)\<close> counts the equal columns of a
  row (0, 1 or 2), and the product with the one-column temperature array is a vector of one
  entry, which \<^verbatim>\<open>[:,None]\<close> turns into a 1-by-1 array.
\<close>

record max_Temp =
  self_stations_coordinates :: "(real \<times> real) list"
  self_stations_maxT :: "real list"

definition max_Temp_init :: "(real \<times> real) list \<Rightarrow> real list \<Rightarrow> max_Temp" where
  "max_Temp_init coords maxT = \<lparr>self_stations_coordinates = coords, self_stations_maxT = maxT\<rparr>"

definition eq_count :: "real \<times> real \<Rightarrow> real \<times> real \<Rightarrow> nat" where
  "eq_count row x = (if fst row = fst x then 1 else 0) + (if snd row = snd x then 1 else 0)"

definition dot :: "real list \<Rightarrow> real list \<Rightarrow> real" where
  "dot u v = sum_list (map2 (*) u v)"

definition max_Temp_f :: "max_Temp \<Rightarrow> real \<times> real \<Rightarrow> real list list" where
  "max_Temp_f self x =
     [[dot (map (\<lambda>row. 0.5 * real (eq_count row x)) (self_stations_coordinates self))
           (self_stations_maxT self)]]"


text \<open>
  \<^verbatim>\<open>func = max_Temp(stations_coordinates,stations_maxT)\<close>: the objective the notebook
  builds from a file's lines.
\<close>

definition bandit_func :: "(string \<Rightarrow> real option) \<Rightarrow> string list \<Rightarrow> py_error + max_Temp" where
  "bandit_func flt contents =
     bind_e (build_forecast_dict flt contents) (\<lambda>forecast_dict.
     bind_e (station_arrays flt forecast_dict) (\<lambda>(temperature, lat, lon).
     Inr (max_Temp_init (stations_coordinates lon lat) (stations_maxT temperature lat lon))))"

text \<open>What the dictionary records for a station key: the maximum temperature \<open>t\<close> of day
  \<open>day_out\<close>, and the coordinate row \<open>c\<close> = (longitude, latitude) read from the key
  (latitude first in the key).\<close>

definition recorded ::
  "(string \<Rightarrow> real option) \<Rightarrow> forecast \<Rightarrow> station_key \<Rightarrow> real \<times> real \<Rightarrow> real \<Rightarrow> bool" where
  "recorded flt forecast_dict key c t =
     ((case lookup2 forecast_dict key day_out of Inl _ \<Rightarrow> False | Inr r \<Rightarrow> MaxT r = t)
      \<and> to_float flt (fst key) = Inr (snd c)
      \<and> to_float flt (snd key) = Inr (fst c))"

text \<open>Two files to run the notebook on: in the first, two stations inside the box lie on
  one meridian; the second is the dictionary of \<open>sample_file\<close>.\<close>

definition meridian_file :: "string list" where
  "meridian_file =
     [''lat lon day maxT minT\<newline>'',
      ''30 -100 0 10 5\<newline>'',
      ''40 -100 0 20 15\<newline>'']"

definition sample_dict :: forecast where
  "sample_dict =
     [((''30.5'', ''-100.25''),
         [(''0'', \<lparr>MaxT = 20.5, MinT = 10\<rparr>), (''1'', \<lparr>MaxT = 21, MinT = 11.5\<rparr>)]),
      ((''24'', ''-80''), [(''0'', \<lparr>MaxT = 30, MinT = 25\<rparr>)])]"

section \<open>Modular notebook: the jitter-integrated acquisition\<close>

text \<open>
  A two-dimensional numpy array is the list of its rows. \<^verbatim>\<open>np.zeros((n,1))\<close> is a column
  of \<open>n\<close> zeros and \<^verbatim>\<open>np.zeros(x.shape)\<close> has the shape of \<open>x\<close>.
\<close>

type_synonym matrix = "real list list"

definition zeros :: "nat \<Rightarrow> nat \<Rightarrow> matrix" where
  "zeros n m = replicate n (replicate m 0)"

definition zeros_like :: "matrix \<Rightarrow> matrix" where
  "zeros_like x = map (map (\<lambda>_. 0)) x"

text \<open>
  \<^verbatim>\<open>a += v\<close> adds in place: \<open>v\<close> is broadcast to the shape of \<open>a\<close> (an axis of
  length one is repeated) and a shape that cannot be broadcast raises ValueError.
\<close>

definition stretch :: "nat \<Rightarrow> 'a list \<Rightarrow> 'a list option" where
  "stretch n xs =
     (if length xs = n then Some xs
      else if length xs = 1 then Some (replicate n (hd xs))
      else None)"

definition iadd :: "matrix \<Rightarrow> matrix \<Rightarrow> py_error + matrix" where
  "iadd a v =
     (case stretch (length a) v of
        None \<Rightarrow> Inl ValueError
      | Some rows \<Rightarrow>
          (let added = map2 (\<lambda>ra rv. map_option (map2 (+) ra) (stretch (length ra) rv)) a rows
           in if list_all (\<lambda>r. r \<noteq> None) added then Inr (map the added) else Inl ValueError))"

text \<open>The entry-wise sum of two arrays of one shape.\<close>

definition madd :: "matrix \<Rightarrow> matrix \<Rightarrow> matrix" where
  "madd a v = map2 (map2 (+)) a v"

text \<open>\<^verbatim>\<open>a / n\<close> for an integer \<open>n\<close>, entry by entry. (For \<open>n = 0\<close> numpy gives
  \<^verbatim>\<open>nan\<close> entries; the model is used for \<open>n > 0\<close> only.)\<close>

definition div_by :: "matrix \<Rightarrow> nat \<Rightarrow> matrix" where
  "div_by a n = map (map (\<lambda>v. v / real n)) a"

text \<open>
  \<^verbatim>\<open>
  class jitter_integrated_EI(AcquisitionBase):
      def __init__(self, model, space, optimizer=None, cost_withGradients=None,
                   par_a=1, par_b=1, num_samples= 10):
          super(jitter_integrated_EI, self).__init__(model, space, optimizer)
          self.par_a = par_a
          self.par_b = par_b
          self.num_samples = num_samples
          self.samples = beta(self.par_a,self.par_b,self.num_samples)
          self.EI = AcquisitionEI(model, space, optimizer, cost_withGradients)
  \<close>
  The wrapped \<^verbatim>\<open>AcquisitionEI\<close> object belongs to GPyOpt: the notebook writes its
  \<^verbatim>\<open>jitter\<close> attribute and calls its two acquisition methods, nothing else. Its
  remaining state (model, space, optimizer, cost) is the field \<open>ei_state\<close>, its constructor
  the parameter \<open>new_EI\<close> and its methods the parameters \<open>ei_af\<close> and \<open>ei_afg\<close>,
  functions of the object and the input. \<^verbatim>\<open>numpy.random.beta\<close> draws from numpy's
  generator: it is the parameter \<open>beta\<close>, taking and returning the generator's state. The
  attributes that \<^verbatim>\<open>AcquisitionBase.__init__\<close> sets are not read by the notebook's
  methods and are left out.
\<close>

record 'm AcquisitionEI =
  jitter :: real
  ei_state :: 'm

record 'm jitter_integrated_EI =
  par_a :: real
  par_b :: real
  num_samples :: nat
  samples :: "real list"
  EI :: "'m AcquisitionEI"

definition jitter_integrated_EI_init ::
  "(real \<Rightarrow> real \<Rightarrow> nat \<Rightarrow> 'g \<Rightarrow> real list \<times> 'g) \<Rightarrow> ('c \<Rightarrow> 'm AcquisitionEI) \<Rightarrow>
     'c \<Rightarrow> real \<Rightarrow> real \<Rightarrow> nat \<Rightarrow> 'g \<Rightarrow> 'm jitter_integrated_EI \<times> 'g" where
  "jitter_integrated_EI_init beta new_EI ctx a b n g =
     (let (smp, g') = beta a b n g
      in (\<lparr>par_a = a, par_b = b, num_samples = n, samples = smp, EI = new_EI ctx\<rparr>, g'))"

text \<open>
  \<^verbatim>\<open>
      def acquisition_function(self,x):
          acqu_x = np.zeros((x.shape[0],1))
          for k in range(self.num_samples):
              self.EI.jitter = self.samples[k]
              acqu_x +=self.EI.acquisition_function(x)
          return acqu_x/self.num_samples
  \<close>
  The loop runs over \<open>[0..<num_samples]\<close>; its state is the wrapped object and the
  accumulator. The method returns its value together with the object as the call leaves it.
\<close>

fun af_loop ::
  "('m AcquisitionEI \<Rightarrow> matrix \<Rightarrow> matrix) \<Rightarrow> matrix \<Rightarrow> real list \<Rightarrow> nat list \<Rightarrow>
     'm AcquisitionEI \<Rightarrow> matrix \<Rightarrow> py_error + ('m AcquisitionEI \<times> matrix)" where
  "af_loop ei_af x smp [] ei acqu_x = Inr (ei, acqu_x)"
| "af_loop ei_af x smp (k # ks) ei acqu_x =
     bind_e (item smp k) (\<lambda>s.
     bind_e (iadd acqu_x (ei_af (ei\<lparr>jitter := s\<rparr>) x)) (\<lambda>acqu_x'.
     af_loop ei_af x smp ks (ei\<lparr>jitter := s\<rparr>) acqu_x'))"

definition acquisition_function ::
  "('m AcquisitionEI \<Rightarrow> matrix \<Rightarrow> matrix) \<Rightarrow> 'm jitter_integrated_EI \<Rightarrow> matrix \<Rightarrow>
     py_error + (matrix \<times> 'm jitter_integrated_EI)" where
  "acquisition_function ei_af self x =
     bind_e (af_loop ei_af x (samples self) [0..<num_samples self] (EI self) (zeros (length x) 1))
       (\<lambda>(ei, acqu_x). Inr (div_by acqu_x (num_samples self), self\<lparr>EI := ei\<rparr>))"

text \<open>
  \<^verbatim>\<open>
      def acquisition_function_withGradients(self,x):
          acqu_x      = np.zeros((x.shape[0],1))
          acqu_x_grad = np.zeros(x.shape)
          for k in range(self.num_samples):
              self.EI.jitter = self.samples[k]
              acqu_x_sample, acqu_x_grad_sample =self.EI.acquisition_function_withGradients(x)
              acqu_x += acqu_x_sample
              acqu_x_grad += acqu_x_grad_sample
          return acqu_x/self.num_samples, acqu_x_grad/self.num_samples
  \<close>
\<close>

fun afg_loop ::
  "('m AcquisitionEI \<Rightarrow> matrix \<Rightarrow> matrix \<times> matrix) \<Rightarrow> matrix \<Rightarrow> real list \<Rightarrow> nat list \<Rightarrow>
     'm AcquisitionEI \<Rightarrow> matrix \<Rightarrow> matrix \<Rightarrow> py_error + ('m AcquisitionEI \<times> matrix \<times> matrix)" where
  "afg_loop ei_afg x smp [] ei acqu_x acqu_x_grad = Inr (ei, acqu_x, acqu_x_grad)"
| "afg_loop ei_afg x smp (k # ks) ei acqu_x acqu_x_grad =
     bind_e (item smp k) (\<lambda>s.
     (case ei_afg (ei\<lparr>jitter := s\<rparr>) x of (acqu_x_sample, acqu_x_grad_sample) \<Rightarrow>
     bind_e (iadd acqu_x acqu_x_sample) (\<lambda>acqu_x'.
     bind_e (iadd acqu_x_grad acqu_x_grad_sample) (\<lambda>acqu_x_grad'.
     afg_loop ei_afg x smp ks (ei\<lparr>jitter := s\<rparr>) acqu_x' acqu_x_grad'))))"

definition acquisition_function_withGradients ::
  "('m AcquisitionEI \<Rightarrow> matrix \<Rightarrow> matrix \<times> matrix) \<Rightarrow> 'm jitter_integrated_EI \<Rightarrow> matrix \<Rightarrow>
     py_error + ((matrix \<times> matrix) \<times> 'm jitter_integrated_EI)" where
  "acquisition_function_withGradients ei_afg self x =
     bind_e (afg_loop ei_afg x (samples self) [0..<num_samples self] (EI self)
               (zeros (length x) 1) (zeros_like x))
       (\<lambda>(ei, acqu_x, acqu_x_grad).
          Inr ((div_by acqu_x (num_samples self), div_by acqu_x_grad (num_samples self)),
               self\<lparr>EI := ei\<rparr>))"

text \<open>The shape GPyOpt's methods return for an input \<open>x\<close>: one value per row of \<open>x\<close>,
  and a gradient of the shape of \<open>x\<close>.\<close>

definition is_column :: "matrix \<Rightarrow> matrix \<Rightarrow> bool" where
  "is_column x v = (length v = length x \<and> list_all (\<lambda>r. length r = 1) v)"

definition same_shape :: "matrix \<Rightarrow> matrix \<Rightarrow> bool" where
  "same_shape x g = (map length g = map length x)"

text \<open>The arithmetic mean of the values \<open>f 0, \<dots>, f (n - 1)\<close>.\<close>

definition mean :: "nat \<Rightarrow> (nat \<Rightarrow> real) \<Rightarrow> real" where
  "mean n f = (\<Sum>k<n. f k) / real n"

text \<open>A small instance to run the two methods on: a stand-in for GPyOpt's methods that
  returns arrays of the right shapes, two samples and a 2-by-2 input.\<close>

definition demo_af :: "unit AcquisitionEI \<Rightarrow> matrix \<Rightarrow> matrix" where
  "demo_af e x = map (\<lambda>row. [jitter e * sum_list row]) x"

definition demo_afg :: "unit AcquisitionEI \<Rightarrow> matrix \<Rightarrow> matrix \<times> matrix" where
  "demo_afg e x = (map (\<lambda>row. [jitter e * sum_list row]) x, map (map (\<lambda>v. jitter e + v)) x)"

definition demo_self :: "unit jitter_integrated_EI" where
  "demo_self =
     \<lparr>par_a = 1, par_b = 10, num_samples = 2, samples = [1 / 4, 3 / 4],
      EI = \<lparr>jitter = 1 / 100, ei_state = ()\<rparr>\<rparr>"

definition demo_x :: matrix where
  "demo_x = [[1, 2], [3, 4]]"

text \<open>A stand-in for numpy's sampler, to run the constructor: it reads the generator's
  state \<open>g\<close>, returns \<open>n\<close> numbers between 0 and 1 that depend on it, and advances it.\<close>

definition demo_beta :: "real \<Rightarrow> real \<Rightarrow> nat \<Rightarrow> nat \<Rightarrow> real list \<times> nat" where
  "demo_beta a b n g = (map (\<lambda>i. 1 / real (g + i + 2)) [0..<n], g + n)"

definition demo_new_EI :: "unit \<Rightarrow> unit AcquisitionEI" where
  "demo_new_EI ctx = \<lparr>jitter = 1 / 100, ei_state = ()\<rparr>"

section \<open>The notebooks as scripts: calls on the optimizer\<close>

text \<open>
  Both notebooks are straight-line scripts. A script is the list of its statements that bind a
  name or call a function; running it gives the calls in order, each with its arguments
  evaluated. A name the script has bound to a number evaluates to the number; any other name
  stands for an object and is kept as \<open>PObj\<close>.
\<close>

datatype pyval = PInt int | PBool bool | PStr string | PObj string

datatype arg = Lit pyval | Var string

datatype call =
  Call (receiver: string) (callee: string) (pos_args: "arg list")
    (kw_args: "(string \<times> arg) list")

datatype event =
  Event (ev_receiver: string) (ev_callee: string) (ev_args: "pyval list")
    (ev_kwargs: "(string \<times> pyval) list")

datatype stmt = Assign string pyval | AssignCall string call | ExprCall call

fun eval_arg :: "(string \<times> pyval) list \<Rightarrow> arg \<Rightarrow> pyval" where
  "eval_arg env (Lit v) = v"
| "eval_arg env (Var x) = (case map_of env x of Some v \<Rightarrow> v | None \<Rightarrow> PObj x)"

fun eval_call :: "(string \<times> pyval) list \<Rightarrow> call \<Rightarrow> event" where
  "eval_call env (Call r m as kws) =
     Event r m (map (eval_arg env) as) (map (\<lambda>(k, a). (k, eval_arg env a)) kws)"

fun run :: "(string \<times> pyval) list \<Rightarrow> stmt list \<Rightarrow> event list" where
  "run env [] = []"
| "run env (Assign x v # ss) = run (AList.update x v env) ss"
| "run env (AssignCall x c # ss) = eval_call env c # run (AList.update x (PObj x) env) ss"
| "run env (ExprCall c # ss) = eval_call env c # run env ss"

text \<open>
  The bandit notebook, from the cell that builds the objective on. The cells before it build
  the arrays modelled above; the cells after \<^verbatim>\<open>run_optimization\<close> call matplotlib and
  read attributes of \<^verbatim>\<open>myBopt\<close> (\<^verbatim>\<open>x_opt\<close>, \<^verbatim>\<open>X\<close>, \<^verbatim>\<open>fx_opt\<close>).
  \<^verbatim>\<open>
  func = max_Temp(stations_coordinates,stations_maxT)
  domain = [{'name': 'stations', 'type': 'bandit', 'domain':stations_coordinates }]
  seed(123)
  myBopt = GPyOpt.methods.BayesianOptimization(f=func.f, domain=domain,
               initial_design_numdata = 5, acquisition_type='EI', exact_feval = True,
               normalize_Y = False, optimize_restarts = 10, acquisition_weight = 2,
               de_duplication = True)
  max_iter = 50     # evaluation budget
  myBopt.run_optimization(max_iter)
  \<close>
  A function called by its bare name has the empty receiver.
\<close>

definition bandit_notebook :: "stmt list" where
  "bandit_notebook =
     [AssignCall ''func''
        (Call [] ''max_Temp'' [Var ''stations_coordinates'', Var ''stations_maxT''] []),
      Assign ''domain'' (PObj ''domain''),
      ExprCall (Call [] ''seed'' [Lit (PInt 123)] []),
      AssignCall ''myBopt''
        (Call ''GPyOpt.methods'' ''BayesianOptimization'' []
           [(''f'', Var ''func.f''), (''domain'', Var ''domain''),
            (''initial_design_numdata'', Lit (PInt 5)),
            (''acquisition_type'', Lit (PStr ''EI'')),
            (''exact_feval'', Lit (PBool True)),
            (''normalize_Y'', Lit (PBool False)),
            (''optimize_restarts'', Lit (PInt 10)),
            (''acquisition_weight'', Lit (PInt 2)),
            (''de_duplication'', Lit (PBool True))]),
      Assign ''max_iter'' (PInt 50),
      ExprCall (Call ''myBopt'' ''run_optimization'' [Var ''max_iter''] [])]"

text \<open>
  The modular notebook.
  \<^verbatim>\<open>
  func  = GPyOpt.objective_examples.experiments2d.branin()
  func.plot()
  objective = GPyOpt.core.task.SingleObjective(func.f)
  space = GPyOpt.Design_space(space =[...])
  model = GPyOpt.models.GPModel(optimize_restarts=5,verbose=False)
  aquisition_optimizer = GPyOpt.optimization.AcquisitionOptimizer(space)
  initial_design = GPyOpt.util.general.initial_design('random', space, 5)
  acquisition = jitter_integrated_EI(model, space, optimizer=aquisition_optimizer,
                                     par_a=1, par_b=10, num_samples=2000)
  xx = plt.hist(acquisition.samples,bins=50)
  evaluator = GPyOpt.core.evaluators.Sequential(acquisition)
  bo = GPyOpt.methods.ModularBayesianOptimization(model, space, objective, acquisition,
                                                  evaluator, initial_design)
  max_iter  = 10
  bo.run_optimization(max_iter = max_iter)
  bo.plot_acquisition()
  bo.plot_convergence()
  \<close>
\<close>

definition modular_notebook :: "stmt list" where
  "modular_notebook =
     [AssignCall ''func'' (Call ''GPyOpt.objective_examples.experiments2d'' ''branin'' [] []),
      ExprCall (Call ''func'' ''plot'' [] []),
      AssignCall ''objective'' (Call ''GPyOpt.core.task'' ''SingleObjective'' [Var ''func.f''] []),
      AssignCall ''space'' (Call ''GPyOpt'' ''Design_space'' [] [(''space'', Lit (PObj ''[...]''))]),
      AssignCall ''model''
        (Call ''GPyOpt.models'' ''GPModel'' []
           [(''optimize_restarts'', Lit (PInt 5)), (''verbose'', Lit (PBool False))]),
      AssignCall ''aquisition_optimizer''
        (Call ''GPyOpt.optimization'' ''AcquisitionOptimizer'' [Var ''space''] []),
      AssignCall ''initial_design''
        (Call ''GPyOpt.util.general'' ''initial_design''
           [Lit (PStr ''random''), Var ''space'', Lit (PInt 5)] []),
      AssignCall ''acquisition''
        (Call [] ''jitter_integrated_EI'' [Var ''model'', Var ''space'']
           [(''optimizer'', Var ''aquisition_optimizer''), (''par_a'', Lit (PInt 1)),
            (''par_b'', Lit (PInt 10)), (''num_samples'', Lit (PInt 2000))]),
      AssignCall ''xx''
        (Call ''plt'' ''hist'' [Var ''acquisition.samples''] [(''bins'', Lit (PInt 50))]),
      AssignCall ''evaluator''
        (Call ''GPyOpt.core.evaluators'' ''Sequential'' [Var ''acquisition''] []),
      AssignCall ''bo''
        (Call ''GPyOpt.methods'' ''ModularBayesianOptimization''
           [Var ''model'', Var ''space'', Var ''objective'', Var ''acquisition'', Var ''evaluator'',
            Var ''initial_design''] []),
      Assign ''max_iter'' (PInt 10),
      ExprCall (Call ''bo'' ''run_optimization'' [] [(''max_iter'', Var ''max_iter'')]),
      ExprCall (Call ''bo'' ''plot_acquisition'' [] []),
      ExprCall (Call ''bo'' ''plot_convergence'' [] [])]"

text \<open>The calls of a script on the optimization loop.\<close>

definition run_optimization_calls :: "stmt list \<Rightarrow> event list" where
  "run_optimization_calls script = filter (\<lambda>e. ev_callee e = ''run_optimization'') (run [] script)"

text \<open>The parameters a call sets, given the parameter names of the called function in order:
  positional arguments bind the first names, keyword arguments their own.\<close>

definition bound :: "string list \<Rightarrow> event \<Rightarrow> (string \<times> pyval) list" where
  "bound params e = zip params (ev_args e) @ ev_kwargs e"

text \<open>No keyword argument of the call has one of the given names.\<close>

definition sets_none_of :: "string list \<Rightarrow> event \<Rightarrow> bool" where
  "sets_none_of names e = list_all (\<lambda>k. k \<notin> set names) (map fst (ev_kwargs e))"

section \<open>Parsing: properties\<close>


lemma day_record_Inr_length: "day_record flt ls = Inr r \<Longrightarrow> 5 \<le> length ls"
  by (auto simp: day_record_def bind_e_def item_def split: if_splits sum.splits)

lemma store_day_parsed:
  assumes "day_record flt ls = Inr r"
  shows "store_day flt d ls =
           (case map_of d (ls ! 0, ls ! 1) of
              None \<Rightarrow> Inl KeyError
            | Some inner \<Rightarrow> Inr (AList.update (ls ! 0, ls ! 1) (AList.update (ls ! 2) r inner) d))"
proof -
  from assms have "5 \<le> length ls" by (rule day_record_Inr_length)
  then have "0 < length ls" "1 < length ls" "2 < length ls" by auto
  with assms show ?thesis
    by (simp add: store_day_def bind_e_def item_def getitem_def split: option.splits)
qed


lemma parse_line_parsed:
  assumes "day_record flt (split_on CHR '' '' line) = Inr r"
  shows "parse_line flt d line =
           Inr (AList.update (line_key line)
                  (AList.update (snd (line_entry line)) r (stored d (line_key line))) d)"
proof -
  let ?ls = "split_on CHR '' '' line"
  from assms have "5 \<le> length ?ls" by (rule day_record_Inr_length)
  then have len: "0 < length ?ls" "1 < length ?ls" by auto
  show ?thesis
  proof (cases "map_of d (?ls ! 0, ?ls ! 1)")
    case None
    then have "store_day flt d ?ls = Inl KeyError"
      by (simp add: store_day_parsed [OF assms])
    moreover have "except_body flt d ?ls =
        Inr (AList.update (?ls ! 0, ?ls ! 1) (AList.update (?ls ! 2) r []) d)"
      using len by (simp add: except_body_def bind_e_def item_def store_day_parsed [OF assms]
          AList.update_conv')
    ultimately show ?thesis using None
      by (simp add: parse_line_def line_key_def line_entry_def stored_def Let_def)
  next
    case (Some inner)
    then show ?thesis
      by (simp add: parse_line_def line_key_def line_entry_def stored_def Let_def
          store_day_parsed [OF assms])
  qed
qed

lemma enters_except_parsed:
  assumes "temps_parse flt line"
  shows "enters_except flt d line \<longleftrightarrow> line_key line \<notin> fst ` set d"
proof -
  from assms obtain r where r: "day_record flt (split_on CHR '' '' line) = Inr r"
    by (cases "day_record flt (split_on CHR '' '' line)") (auto simp: temps_parse_def)
  have "enters_except flt d line \<longleftrightarrow> map_of d (line_key line) = None"
    by (simp add: enters_except_def store_day_parsed [OF r] line_key_def Let_def
        split: option.splits)
  then show ?thesis by (simp add: map_of_eq_None_iff)
qed



lemma entries_Cons:
  "entries (p # ps) = map (\<lambda>day. (fst p, day)) (map fst (snd p)) @ entries ps"
  by (cases p) (simp add: entries_def case_prod_unfold comp_def)

lemma set_entries_Cons:
  "set (entries (p # ps)) = Pair (fst p) ` fst ` set (snd p) \<union> set (entries ps)"
  by (simp add: entries_Cons image_image)

lemma entries_keys: "(k, day) \<in> set (entries d) \<Longrightarrow> k \<in> fst ` set d"
proof (induction d)
  case Nil
  then show ?case by (simp add: entries_def)
next
  case (Cons p ps)
  then show ?case by (auto simp: set_entries_Cons)
qed

lemma set_entries_update:
  "set (entries (AList.update k (AList.update day r (stored d k)) d)) =
     insert (k, day) (set (entries d))"
proof (induction d)
  case Nil
  then show ?case by (simp add: entries_def stored_def)
next
  case (Cons p ps)
  show ?case
  proof (cases "fst p = k")
    case True
    then have st: "stored (p # ps) k = snd p" by (cases p) (simp add: stored_def)
    have "AList.update k (AList.update day r (snd p)) (p # ps) =
            (k, AList.update day r (snd p)) # ps"
      using True by simp
    then show ?thesis
      using True by (simp add: st set_entries_Cons AList.dom_update)
  next
    case False
    then have st: "stored (p # ps) k = stored ps k" by (cases p) (simp add: stored_def)
    have "AList.update k (AList.update day r (stored ps k)) (p # ps) =
            p # AList.update k (AList.update day r (stored ps k)) ps"
      using False by simp
    then show ?thesis
      using Cons by (simp add: st set_entries_Cons)
  qed
qed

lemma distinct_stored: "wf_dict d \<Longrightarrow> distinct (map fst (stored d k))"
proof (cases "map_of d k")
  case None
  then show ?thesis by (simp add: stored_def)
next
  case (Some inner)
  assume "wf_dict d"
  moreover from Some have "(k, inner) \<in> set d" by (rule map_of_SomeD)
  ultimately have "distinct (map fst inner)"
    by (auto simp: wf_dict_def list_all_iff)
  with Some show ?thesis by (simp add: stored_def)
qed

lemma list_all_update:
  "list_all P d \<Longrightarrow> P (k, v) \<Longrightarrow> list_all P (AList.update k v d)"
  by (induction d) auto

lemma wf_dict_update:
  assumes "wf_dict d"
  shows "wf_dict (AList.update k (AList.update day r (stored d k)) d)"
proof -
  have "distinct (map fst (AList.update day r (stored d k)))"
    using distinct_stored [OF assms] by (rule AList.distinct_update)
  with assms show ?thesis
    by (simp add: wf_dict_def AList.distinct_update list_all_update)
qed

lemma distinct_entries: "wf_dict d \<Longrightarrow> distinct (entries d)"
proof (induction d)
  case Nil
  then show ?case by (simp add: entries_def)
next
  case (Cons p ps)
  then have wf: "wf_dict ps" and dp: "distinct (map fst (snd p))"
    and fresh: "fst p \<notin> fst ` set ps"
    by (auto simp: wf_dict_def)
  have "distinct (map (\<lambda>day. (fst p, day)) (map fst (snd p)))"
    using dp by (simp add: distinct_map inj_on_def)
  moreover have "set (map (\<lambda>day. (fst p, day)) (map fst (snd p))) \<inter> set (entries ps) = {}"
    using fresh by (auto dest: entries_keys)
  ultimately show ?case using Cons.IH [OF wf]
    by (simp only: entries_Cons distinct_append)
qed

lemma parse_lines_parsed:
  assumes "\<forall>l \<in> set ls. temps_parse flt l"
  shows "\<exists>d'. parse_lines flt d ls = Inr d'
           \<and> set (entries d') = set (entries d) \<union> line_entry ` set ls
           \<and> (wf_dict d \<longrightarrow> wf_dict d')"
  using assms
proof (induction ls arbitrary: d)
  case Nil
  then show ?case by simp
next
  case (Cons l ls)
  then have "temps_parse flt l" by simp
  then obtain r where r: "day_record flt (split_on CHR '' '' l) = Inr r"
    by (cases "day_record flt (split_on CHR '' '' l)") (auto simp: temps_parse_def)
  define d1 where
    "d1 = AList.update (line_key l) (AList.update (snd (line_entry l)) r (stored d (line_key l))) d"
  have step: "parse_line flt d l = Inr d1"
    unfolding d1_def by (rule parse_line_parsed [OF r])
  have le: "line_entry l = (line_key l, snd (line_entry l))"
    by (simp add: line_entry_def line_key_def Let_def)
  have ent: "set (entries d1) = insert (line_entry l) (set (entries d))"
    unfolding d1_def by (subst set_entries_update) (use le in simp)
  have wf: "wf_dict d \<Longrightarrow> wf_dict d1"
    unfolding d1_def by (rule wf_dict_update)
  from Cons have "\<forall>l \<in> set ls. temps_parse flt l" by simp
  from Cons.IH [OF this, of d1] obtain d' where
    "parse_lines flt d1 ls = Inr d'"
    "set (entries d') = set (entries d1) \<union> line_entry ` set ls"
    "wf_dict d1 \<longrightarrow> wf_dict d'"
    by blast
  with step ent wf show ?case
    by (auto simp: bind_e_def)
qed




text \<open>
  Claim C3, as amended. The handler is a bare \<^verbatim>\<open>except:\<close>, so it is entered whenever the
  \<^verbatim>\<open>try\<close> body raises. For a file in which every data line has its two temperature
  fields and both parse as floats, the body can only raise for a missing station: the handler
  is entered exactly when the line's station key is not yet in \<open>forecast_dict\<close>, whatever
  the dictionary holds, the loop finishes, and the dictionary ends with exactly one nested
  entry for each (station, day) pair that occurs in the data lines.
\<close>

theorem forecast_dict_entries:
  assumes "\<forall>line \<in> set (drop 1 contents). temps_parse flt line"
  shows "(\<exists>d. build_forecast_dict flt contents = Inr d
              \<and> set (entries d) = line_entry ` set (drop 1 contents)
              \<and> distinct (entries d))
         \<and> (\<forall>line \<in> set (drop 1 contents). \<forall>fd.
               enters_except flt fd line \<longleftrightarrow> line_key line \<notin> fst ` set fd)"
proof
  from parse_lines_parsed [OF assms, of "[]"] obtain d where
    d: "parse_lines flt [] (drop 1 contents) = Inr d"
       "set (entries d) = set (entries []) \<union> line_entry ` set (drop 1 contents)"
       "wf_dict [] \<longrightarrow> wf_dict d"
    by blast
  have "wf_dict []" by (simp add: wf_dict_def)
  with d have "distinct (entries d)" by (simp add: distinct_entries)
  with d show "\<exists>d. build_forecast_dict flt contents = Inr d
              \<and> set (entries d) = line_entry ` set (drop 1 contents)
              \<and> distinct (entries d)"
    by (simp add: build_forecast_dict_def entries_def)
next
  show "\<forall>line \<in> set (drop 1 contents). \<forall>fd.
               enters_except flt fd line \<longleftrightarrow> line_key line \<notin> fst ` set fd"
    using assms by (simp add: enters_except_parsed)
qed

lemmas run_defs =
  temps_parse_def day_record_def store_day_def except_body_def parse_line_def
  build_forecast_dict_def enters_except_def line_key_def line_entry_def
  bind_e_def item_def getitem_def to_float_def float_dec_def unsigned_dec_def digit_val_def

theorem forecast_dict_entries_witness:
  "list_all (temps_parse float_dec) (drop 1 sample_file)
   \<and> (\<exists>d. build_forecast_dict float_dec sample_file = Inr d
          \<and> set (entries d) = line_entry ` set (drop 1 sample_file)
          \<and> distinct (entries d))
   \<and> enters_except float_dec [] (sample_file ! 1)
   \<and> \<not> enters_except float_dec [((''30.5'', ''-100.25''), [])] (sample_file ! 1)"
proof -
  have h: "list_all (temps_parse float_dec) (drop 1 sample_file)"
    by (simp add: sample_file_def run_defs)
  then have h': "\<forall>line \<in> set (drop 1 sample_file). temps_parse float_dec line"
    by (simp add: list_all_iff)
  have m: "sample_file ! 1 \<in> set (drop 1 sample_file)"
    by (simp add: sample_file_def)
  have k: "line_key (sample_file ! 1) = (''30.5'', ''-100.25'')"
    by (simp add: sample_file_def line_key_def)
  from forecast_dict_entries [OF h'] have
    a: "\<exists>d. build_forecast_dict float_dec sample_file = Inr d
          \<and> set (entries d) = line_entry ` set (drop 1 sample_file)
          \<and> distinct (entries d)"
    and b: "\<forall>line \<in> set (drop 1 sample_file). \<forall>fd.
          enters_except float_dec fd line \<longleftrightarrow> line_key line \<notin> fst ` set fd"
    by blast+
  from b m have e: "\<And>fd. enters_except float_dec fd (sample_file ! 1)
      \<longleftrightarrow> line_key (sample_file ! 1) \<notin> fst ` set fd"
    by blast
  have "enters_except float_dec [] (sample_file ! 1)"
    using e [of "[]"] by simp
  moreover have "\<not> enters_except float_dec [((''30.5'', ''-100.25''), [])] (sample_file ! 1)"
    using e [of "[((''30.5'', ''-100.25''), [])]"] k by simp
  ultimately show ?thesis using h a by blast
qed

text \<open>
  Claim C3 as stated fails: the second data line below names a station that is already in
  the dictionary, its maximum temperature does not parse, and the handler is entered all
  the same (the ValueError then leaves the loop from inside the handler).
\<close>

theorem except_taken_for_present_key:
  "build_forecast_dict float_dec [''lat lon day maxT minT\<newline>'', ''30 -100 0 20 10\<newline>'']
     = Inr [((''30'', ''-100''), [(''0'', \<lparr>MaxT = 20, MinT = 10\<rparr>)])]
   \<and> line_key ''30 -100 1 x 11\<newline>''
       \<in> fst ` set [((''30'', ''-100''), [(''0'', \<lparr>MaxT = 20, MinT = 10\<rparr>)])]
   \<and> enters_except float_dec [((''30'', ''-100''), [(''0'', \<lparr>MaxT = 20, MinT = 10\<rparr>)])]
        ''30 -100 1 x 11\<newline>''
   \<and> build_forecast_dict float_dec
        [''lat lon day maxT minT\<newline>'', ''30 -100 0 20 10\<newline>'', ''30 -100 1 x 11\<newline>'']
       = Inl ValueError"
  by (simp add: run_defs)

text \<open>
  Claim C6. A data line is cut at single spaces. When it has at least five fields, field 3
  parses as a float and field 4 without its last character parses as a float, the line is
  processed without an exception from any dictionary, and afterwards the dictionary holds,
  under the key (field 0, field 1) and the day field 2, the record with
  \<open>MaxT\<close> the float of field 3 and \<open>MinT\<close> the float of the stripped field 4.
\<close>

theorem parse_line_stores_fields:
  assumes "5 \<le> length (split_on CHR '' '' line)"
    and "flt (split_on CHR '' '' line ! 3) = Some a"
    and "flt (butlast (split_on CHR '' '' line ! 4)) = Some b"
  shows "\<exists>d. parse_line flt fd line = Inr d
           \<and> lookup2 d (split_on CHR '' '' line ! 0, split_on CHR '' '' line ! 1)
                (split_on CHR '' '' line ! 2) = Inr \<lparr>MaxT = a, MinT = b\<rparr>"
proof -
  let ?ls = "split_on CHR '' '' line"
  from assms(1) have "3 < length ?ls" "4 < length ?ls" by auto
  with assms have r: "day_record flt ?ls = Inr \<lparr>MaxT = a, MinT = b\<rparr>"
    by (simp add: day_record_def bind_e_def item_def to_float_def)
  show ?thesis
    by (simp add: parse_line_parsed [OF r] lookup2_def getitem_def bind_e_def
        AList.update_conv' line_key_def line_entry_def Let_def)
qed

theorem parse_line_stores_fields_witness:
  "split_on CHR '' '' ''30.5 -100.25 0 20.5 10\<newline>'' = [''30.5'', ''-100.25'', ''0'', ''20.5'', ''10\<newline>'']
   \<and> (\<exists>d. parse_line float_dec [] ''30.5 -100.25 0 20.5 10\<newline>'' = Inr d
          \<and> lookup2 d (''30.5'', ''-100.25'') ''0'' = Inr \<lparr>MaxT = 20.5, MinT = 10\<rparr>)"
proof -
  have s: "split_on CHR '' '' ''30.5 -100.25 0 20.5 10\<newline>''
             = [''30.5'', ''-100.25'', ''0'', ''20.5'', ''10\<newline>'']"
    by simp
  have h1: "5 \<le> length (split_on CHR '' '' ''30.5 -100.25 0 20.5 10\<newline>'')"
    by (simp only: s) simp
  have h2: "float_dec (split_on CHR '' '' ''30.5 -100.25 0 20.5 10\<newline>'' ! 3) = Some 20.5"
    by (simp only: s) (simp add: float_dec_def unsigned_dec_def digit_val_def)
  have h3: "float_dec (butlast (split_on CHR '' '' ''30.5 -100.25 0 20.5 10\<newline>'' ! 4)) = Some 10"
    by (simp only: s) (simp add: float_dec_def unsigned_dec_def digit_val_def)
  from parse_line_stores_fields [OF h1 h2 h3, of "[]"] s show ?thesis by simp
qed

text \<open>
  Claim C9. The loop starts at index 1: the dictionary does not depend on the first line of
  the file, it is what parsing the remaining lines from the empty dictionary gives, and a file
  of one line (or none) gives the empty dictionary.
\<close>

theorem first_line_never_parsed:
  "build_forecast_dict flt (first # rest) = build_forecast_dict flt (other # rest)
   \<and> build_forecast_dict flt (first # rest) = parse_lines flt [] rest
   \<and> build_forecast_dict flt [first] = Inr []
   \<and> build_forecast_dict flt [] = Inr []"
  by (simp add: build_forecast_dict_def)


section \<open>The station arrays: properties\<close>

lemma select_rows_index:
  assumes "length msk = length rows"
  shows "select_rows rows msk = map ((!) rows) (filter ((!) msk) [0..<length rows])"
proof -
  have "zip rows msk = map (\<lambda>i. (rows ! i, msk ! i)) [0..<length rows]"
    using assms by (intro nth_equalityI) simp_all
  then show ?thesis
    by (simp add: select_rows_def filter_map comp_def)
qed

lemma subseq_select_rows: "subseq (select_rows rows msk) rows"
proof (induction rows arbitrary: msk)
  case Nil
  then show ?case by (simp add: select_rows_def)
next
  case (Cons r rows)
  show ?case
  proof (cases msk)
    case Nil
    then show ?thesis by (simp add: select_rows_def)
  next
    case (Cons b bs)
    with Cons.IH [of bs] show ?thesis
      by (cases b) (auto simp: select_rows_def)
  qed
qed

lemma sel_nth:
  assumes "length lon = length lat" and "i < length lat"
  shows "sel lat lon ! i \<longleftrightarrow> in_box (lat ! i) (lon ! i)"
  using assms by (auto simp: sel_def in_box_def)

lemma sel_filter:
  assumes "length lon = length lat"
  shows "filter ((!) (sel lat lon)) [0..<length lat]
           = filter (\<lambda>i. in_box (lat ! i) (lon ! i)) [0..<length lat]"
  using assms by (intro filter_cong) (simp_all add: sel_nth)

text \<open>
  Claim C4. With one latitude, one longitude and one temperature per station, the rows kept
  in \<open>stations_coordinates\<close> and in \<open>stations_maxT\<close> are, in order, those of the
  stations whose latitude is strictly between 24 and 51 and whose longitude is strictly
  between -130 and -65: the mask is true at a station exactly then, and a station on one of
  the four bounds is left out.
\<close>

theorem stations_kept_iff_in_open_box:
  assumes "length lon = length lat" and "length temperature = length lat"
  shows "stations_coordinates lon lat
           = map (\<lambda>i. (lon ! i, lat ! i))
               (filter (\<lambda>i. 24 < lat ! i \<and> lat ! i < 51 \<and> -130 < lon ! i \<and> lon ! i < -65)
                  [0..<length lat])
       \<and> stations_maxT temperature lat lon
           = map (\<lambda>i. temperature ! i)
               (filter (\<lambda>i. 24 < lat ! i \<and> lat ! i < 51 \<and> -130 < lon ! i \<and> lon ! i < -65)
                  [0..<length lat])
       \<and> (\<forall>i < length lat.
             sel lat lon ! i
               \<longleftrightarrow> 24 < lat ! i \<and> lat ! i < 51 \<and> -130 < lon ! i \<and> lon ! i < -65)
       \<and> (\<forall>i < length lat.
             lat ! i = 24 \<or> lat ! i = 51 \<or> lon ! i = -130 \<or> lon ! i = -65
               \<longrightarrow> \<not> sel lat lon ! i)"
proof -
  let ?I = "filter (\<lambda>i. 24 < lat ! i \<and> lat ! i < 51 \<and> -130 < lon ! i \<and> lon ! i < -65)
              [0..<length lat]"
  have len: "length (sel lat lon) = length lat"
    using assms(1) by (simp add: sel_def)
  have I: "filter ((!) (sel lat lon)) [0..<length lat] = ?I"
    using sel_filter [OF assms(1)] by (simp add: in_box_def)
  have "length (sel lat lon) = length (stations_coordinates_all lon lat)"
    using assms(1) len by (simp add: stations_coordinates_all_def)
  from select_rows_index [OF this]
  have "stations_coordinates lon lat = map ((!) (zip lon lat)) ?I"
    using assms(1) I by (simp add: stations_coordinates_def stations_coordinates_all_def)
  also have "\<dots> = map (\<lambda>i. (lon ! i, lat ! i)) ?I"
    using assms(1) by (intro map_cong) simp_all
  finally have c: "stations_coordinates lon lat = map (\<lambda>i. (lon ! i, lat ! i)) ?I" .
  have "length (sel lat lon) = length (stations_maxT_all temperature)"
    using assms(2) len by (simp add: stations_maxT_all_def)
  from select_rows_index [OF this]
  have t: "stations_maxT temperature lat lon = map (\<lambda>i. temperature ! i) ?I"
    using assms(2) I by (simp add: stations_maxT_def stations_maxT_all_def)
  have s: "\<forall>i < length lat.
      sel lat lon ! i \<longleftrightarrow> 24 < lat ! i \<and> lat ! i < 51 \<and> -130 < lon ! i \<and> lon ! i < -65"
    using sel_nth [OF assms(1)] by (simp add: in_box_def)
  then have "\<forall>i < length lat.
      lat ! i = 24 \<or> lat ! i = 51 \<or> lon ! i = -130 \<or> lon ! i = -65 \<longrightarrow> \<not> sel lat lon ! i"
    by auto
  with c t s show ?thesis by blast
qed

theorem stations_kept_iff_in_open_box_witness:
  "length [-100, -100, -100, -65 :: real] = length [24, 30, 51, 40 :: real]
   \<and> length [1, 2, 3, 4 :: real] = length [24, 30, 51, 40 :: real]
   \<and> stations_coordinates [-100, -100, -100, -65] [24, 30, 51, 40] = [(-100, 30)]
   \<and> stations_maxT [1, 2, 3, 4] [24, 30, 51, 40] [-100, -100, -100, -65] = [2]
   \<and> sel [24, 30, 51, 40] [-100, -100, -100, -65] = [False, True, False, False]"
proof -
  have h1: "length [-100, -100, -100, -65 :: real] = length [24, 30, 51, 40 :: real]" by simp
  have h2: "length [1, 2, 3, 4 :: real] = length [24, 30, 51, 40 :: real]" by simp
  have u: "[0..<4] = [0, 1, 2, 3]" by (simp add: upt_rec)
  have s: "sel [24, 30, 51, 40] [-100, -100, -100, -65] = [False, True, False, False]"
    by (simp add: sel_def)
  from stations_kept_iff_in_open_box [OF h1 h2] s show ?thesis
    by (simp add: u)
qed

lemma collect_rows:
  assumes "collect flt fd keys (t0, la0, lo0) = Inr (t, la, lo)"
  shows "\<exists>ts las los. t = t0 @ ts \<and> la = la0 @ las \<and> lo = lo0 @ los
           \<and> length ts = length keys \<and> length las = length keys \<and> length los = length keys
           \<and> (\<forall>i < length keys. recorded flt fd (keys ! i) (los ! i, las ! i) (ts ! i))"
  using assms
proof (induction keys arbitrary: t0 la0 lo0)
  case Nil
  then show ?case by simp
next
  case (Cons key keys)
  from Cons.prems obtain inner where inner: "getitem fd key = Inr inner"
    by (cases "getitem fd key") (simp_all add: bind_e_def)
  from Cons.prems inner obtain r where r: "getitem inner day_out = Inr r"
    by (cases "getitem inner day_out") (simp_all add: bind_e_def)
  from Cons.prems inner r obtain a where a: "to_float flt (fst key) = Inr a"
    by (cases "to_float flt (fst key)") (simp_all add: bind_e_def)
  from Cons.prems inner r a obtain b where b: "to_float flt (snd key) = Inr b"
    by (cases "to_float flt (snd key)") (simp_all add: bind_e_def)
  from Cons.prems inner r a b
  have "collect flt fd keys (t0 @ [MaxT r], la0 @ [a], lo0 @ [b]) = Inr (t, la, lo)"
    by (simp add: bind_e_def)
  from Cons.IH [OF this] obtain ts las los where
    eq: "t = (t0 @ [MaxT r]) @ ts" "la = (la0 @ [a]) @ las" "lo = (lo0 @ [b]) @ los"
    and len: "length ts = length keys" "length las = length keys" "length los = length keys"
    and rec: "\<forall>i < length keys. recorded flt fd (keys ! i) (los ! i, las ! i) (ts ! i)"
    by blast
  have here: "recorded flt fd key (b, a) (MaxT r)"
    using inner r a b by (simp add: recorded_def lookup2_def bind_e_def)
  have "\<forall>i < length (key # keys).
      recorded flt fd ((key # keys) ! i) ((b # los) ! i, (a # las) ! i) ((MaxT r # ts) ! i)"
  proof (intro allI impI)
    fix i assume "i < length (key # keys)"
    then show "recorded flt fd ((key # keys) ! i) ((b # los) ! i, (a # las) ! i) ((MaxT r # ts) ! i)"
      using here rec by (cases i) simp_all
  qed
  with eq len show ?case
    by (intro exI [of _ "MaxT r # ts"] exI [of _ "a # las"] exI [of _ "b # los"]) simp
qed

lemma station_arrays_rows:
  assumes "station_arrays flt fd = Inr (temperature, lat, lon)"
  shows "length temperature = length fd \<and> length lat = length fd \<and> length lon = length fd
           \<and> (\<forall>i < length fd.
                 recorded flt fd (map fst fd ! i) (lon ! i, lat ! i) (temperature ! i))"
proof -
  from assms have "collect flt fd (map fst fd) ([], [], []) = Inr (temperature, lat, lon)"
    by (simp add: station_arrays_def)
  from collect_rows [OF this] show ?thesis by auto
qed

text \<open>
  Claim C8. When the loop over the keys has built \<open>temperature\<close>, \<open>lat\<close> and \<open>lon\<close>,
  the two filtered arrays have the same number of rows, and their rows are those of a
  subsequence \<open>ks\<close> of the dictionary's keys, in the keys' order: for every index \<open>i\<close>,
  \<open>stations_coordinates[i]\<close> is the (longitude, latitude) pair of station \<open>ks[i]\<close> and
  \<open>stations_maxT[i]\<close> is the maximum temperature recorded for that station on day
  \<open>day_out\<close>.
\<close>

theorem filtering_preserves_pairing:
  assumes "station_arrays flt forecast_dict = Inr (temperature, lat, lon)"
  shows "length (stations_maxT temperature lat lon) = length (stations_coordinates lon lat)
       \<and> (\<exists>ks. subseq ks (map fst forecast_dict)
              \<and> length ks = length (stations_coordinates lon lat)
              \<and> (\<forall>i < length ks.
                    recorded flt forecast_dict (ks ! i)
                      (stations_coordinates lon lat ! i) (stations_maxT temperature lat lon ! i)))"
proof -
  let ?keys = "map fst forecast_dict"
  let ?n = "length forecast_dict"
  let ?I = "filter ((!) (sel lat lon)) [0..<?n]"
  from station_arrays_rows [OF assms] have
    len: "length temperature = ?n" "length lat = ?n" "length lon = ?n"
    and rec: "\<forall>i < ?n. recorded flt forecast_dict (?keys ! i) (lon ! i, lat ! i) (temperature ! i)"
    by simp_all
  have lsel: "length (sel lat lon) = ?n"
    using len by (simp add: sel_def)
  have k: "select_rows ?keys (sel lat lon) = map ((!) ?keys) ?I"
    using select_rows_index [of "sel lat lon" ?keys] lsel by simp
  have c: "stations_coordinates lon lat = map ((!) (zip lon lat)) ?I"
    using select_rows_index [of "sel lat lon" "zip lon lat"] lsel len
    by (simp add: stations_coordinates_def stations_coordinates_all_def)
  have t: "stations_maxT temperature lat lon = map ((!) temperature) ?I"
    using select_rows_index [of "sel lat lon" temperature] lsel len
    by (simp add: stations_maxT_def stations_maxT_all_def)
  have bound: "\<forall>i < length ?I. ?I ! i < ?n"
  proof (intro allI impI)
    fix i assume "i < length ?I"
    then have "?I ! i \<in> set ?I" by (rule nth_mem)
    then show "?I ! i < ?n" by simp
  qed
  have "\<forall>i < length (select_rows ?keys (sel lat lon)).
      recorded flt forecast_dict (select_rows ?keys (sel lat lon) ! i)
        (stations_coordinates lon lat ! i) (stations_maxT temperature lat lon ! i)"
  proof (intro allI impI)
    fix i assume "i < length (select_rows ?keys (sel lat lon))"
    then have i: "i < length ?I" by (simp add: k)
    with bound have b: "?I ! i < ?n" by blast
    with rec have "recorded flt forecast_dict (?keys ! (?I ! i))
        (lon ! (?I ! i), lat ! (?I ! i)) (temperature ! (?I ! i))"
      by blast
    moreover have "zip lon lat ! (?I ! i) = (lon ! (?I ! i), lat ! (?I ! i))"
      using b len by simp
    ultimately show "recorded flt forecast_dict (select_rows ?keys (sel lat lon) ! i)
        (stations_coordinates lon lat ! i) (stations_maxT temperature lat lon ! i)"
      using i by (simp only: k c t nth_map)
  qed
  moreover have "subseq (select_rows ?keys (sel lat lon)) ?keys"
    by (rule subseq_select_rows)
  moreover have "length (select_rows ?keys (sel lat lon)) = length (stations_coordinates lon lat)"
    by (simp add: k c)
  moreover have "length (stations_maxT temperature lat lon) = length (stations_coordinates lon lat)"
    by (simp add: c t)
  ultimately show ?thesis by blast
qed

lemmas array_defs =
  station_arrays_def stations_coordinates_def stations_coordinates_all_def stations_maxT_def
  stations_maxT_all_def select_rows_def sel_def day_out_def max_Temp_init_def

theorem filtering_preserves_pairing_witness:
  "station_arrays float_dec sample_dict = Inr ([20.5, 30], [30.5, 24], [-100.25, -80])
   \<and> stations_coordinates [-100.25, -80] [30.5, 24] = [(-100.25, 30.5)]
   \<and> stations_maxT [20.5, 30] [30.5, 24] [-100.25, -80] = [20.5]
   \<and> (\<exists>ks. subseq ks (map fst sample_dict)
          \<and> length ks = length (stations_coordinates [-100.25, -80] [30.5, 24])
          \<and> (\<forall>i < length ks.
                recorded float_dec sample_dict (ks ! i)
                  (stations_coordinates [-100.25, -80] [30.5, 24] ! i)
                  (stations_maxT [20.5, 30] [30.5, 24] [-100.25, -80] ! i)))"
proof -
  have h: "station_arrays float_dec sample_dict = Inr ([20.5, 30], [30.5, 24], [-100.25, -80])"
    by (simp add: sample_dict_def array_defs run_defs)
  have c: "stations_coordinates [-100.25, -80] [30.5, 24] = [(-100.25, 30.5)]"
    by (simp add: array_defs)
  have t: "stations_maxT [20.5, 30] [30.5, 24] [-100.25, -80] = [20.5]"
    by (simp add: array_defs)
  from filtering_preserves_pairing [OF h] h c t show ?thesis by blast
qed

text \<open>When no other station shares a coordinate value with the query, \<open>f\<close> is the
  lookup: it returns the temperature of the station at the queried coordinates.\<close>

lemma max_Temp_f_isolated:
  assumes "i < length coords" and "length maxT = length coords" and "coords ! i = x"
    and "\<forall>j < length coords. j \<noteq> i \<longrightarrow> fst (coords ! j) \<noteq> fst x \<and> snd (coords ! j) \<noteq> snd x"
  shows "max_Temp_f (max_Temp_init coords maxT) x = [[maxT ! i]]"
proof -
  let ?w = "\<lambda>row. 0.5 * real (eq_count row x)"
  let ?n = "length coords"
  have w: "\<forall>j < ?n. ?w (coords ! j) = (if j = i then 1 else 0)"
    using assms(3,4) by (auto simp: eq_count_def)
  have "dot (map ?w coords) maxT = (\<Sum>j = 0..<?n. map2 (*) (map ?w coords) maxT ! j)"
    using assms(2) by (simp add: dot_def sum_list_sum_nth)
  also have "\<dots> = (\<Sum>j = 0..<?n. if j = i then maxT ! i else 0)"
    using assms(2) w by (intro sum.cong) auto
  also have "\<dots> = maxT ! i"
    using assms(1) by simp
  finally show ?thesis
    by (simp add: max_Temp_f_def max_Temp_init_def)
qed

text \<open>
  Claim C1 fails on the code. In \<open>meridian_file\<close> two stations of the box share the
  longitude -100. Queried with the coordinates (-100, 30) of the first station, whose
  temperature is 10, \<open>f\<close> returns 20: the first station counts with weight 1 and the
  second, equal to the query in one column, with weight 0.5.
\<close>

theorem max_Temp_f_adds_half_of_neighbour:
  "bandit_func float_dec meridian_file
     = Inr \<lparr>self_stations_coordinates = [(-100, 30), (-100, 40)], self_stations_maxT = [10, 20]\<rparr>
   \<and> max_Temp_f
        \<lparr>self_stations_coordinates = [(-100, 30), (-100, 40)], self_stations_maxT = [10, 20]\<rparr>
        (-100, 30) = [[20]]
   \<and> max_Temp_f
        \<lparr>self_stations_coordinates = [(-100, 30), (-100, 40)], self_stations_maxT = [10, 20]\<rparr>
        (-100, 40) = [[25]]"
  by (simp add: bandit_func_def meridian_file_def array_defs run_defs max_Temp_f_def
      eq_count_def dot_def)


section \<open>The acquisition: properties\<close>

lemma stretch_same: "length xs = n \<Longrightarrow> stretch n xs = Some xs"
  by (simp add: stretch_def)

lemma added_same_shape:
  "map length v = map length a \<Longrightarrow>
     map2 (\<lambda>ra rv. map_option (map2 (+) ra) (stretch (length ra) rv)) a v
       = map Some (madd a v)"
proof (induction a arbitrary: v)
  case Nil
  then show ?case by (simp add: madd_def)
next
  case (Cons r a)
  then obtain s v' where v: "v = s # v'" by (cases v) auto
  with Cons.prems have "length s = length r" "map length v' = map length a" by auto
  with Cons.IH [of v'] v show ?case
    by (simp add: madd_def stretch_same)
qed

lemma iadd_same_shape:
  assumes "map length v = map length a"
  shows "iadd a v = Inr (madd a v)"
proof -
  from assms have "length v = length a" by (metis length_map)
  then have "stretch (length a) v = Some v" by (rule stretch_same)
  then show ?thesis
    by (simp add: iadd_def added_same_shape [OF assms] list_all_iff comp_def)
qed

lemma shape_madd: "map length v = map length a \<Longrightarrow> map length (madd a v) = map length a"
proof (induction a arbitrary: v)
  case Nil
  then show ?case by (simp add: madd_def)
next
  case (Cons r a)
  then obtain s v' where v: "v = s # v'" by (cases v) auto
  with Cons.prems have "length s = length r" "map length v' = map length a" by auto
  with Cons.IH [of v'] v show ?case
    by (simp add: madd_def)
qed

lemma nth_madd:
  assumes "map length v = map length a" and "i < length a" and "j < length (a ! i)"
  shows "madd a v ! i ! j = a ! i ! j + v ! i ! j"
proof -
  from assms(1) have len: "length v = length a" by (metis length_map)
  from assms(1) have "map length v ! i = map length a ! i" by simp
  with assms(2) len have "length (v ! i) = length (a ! i)" by simp
  with assms(2,3) len show ?thesis by (simp add: madd_def)
qed

lemma af_loop_sum:
  assumes "\<forall>k \<in> set ks. k < length smp"
    and "\<forall>e. map length (ei_af e x) = map length acc"
  shows "\<exists>acc'. af_loop ei_af x smp ks ei acc
             = Inr (ei\<lparr>jitter := (if ks = [] then jitter ei else smp ! last ks)\<rparr>, acc')
           \<and> map length acc' = map length acc
           \<and> (\<forall>i < length acc. \<forall>j < length (acc ! i).
                 acc' ! i ! j
                   = acc ! i ! j + (\<Sum>k\<leftarrow>ks. ei_af (ei\<lparr>jitter := smp ! k\<rparr>) x ! i ! j))"
  using assms
proof (induction ks arbitrary: ei acc)
  case Nil
  then show ?case by simp
next
  case (Cons k ks)
  let ?ei = "ei\<lparr>jitter := smp ! k\<rparr>"
  let ?acc = "madd acc (ei_af ?ei x)"
  from Cons.prems have k: "k < length smp" and ks: "\<forall>k \<in> set ks. k < length smp"
    and shp: "map length (ei_af ?ei x) = map length acc"
    by auto
  have acc1: "map length ?acc = map length acc"
    using shp by (rule shape_madd)
  then have len1: "length ?acc = length acc" by (metis length_map)
  from Cons.prems(2) acc1 have "\<forall>e. map length (ei_af e x) = map length ?acc" by simp
  from Cons.IH [OF ks this, of ?ei] obtain acc' where
    run: "af_loop ei_af x smp ks ?ei ?acc
            = Inr (?ei\<lparr>jitter := (if ks = [] then jitter ?ei else smp ! last ks)\<rparr>, acc')"
    and shape: "map length acc' = map length ?acc"
    and val: "\<forall>i < length ?acc. \<forall>j < length (?acc ! i).
           acc' ! i ! j = ?acc ! i ! j + (\<Sum>k\<leftarrow>ks. ei_af (?ei\<lparr>jitter := smp ! k\<rparr>) x ! i ! j)"
    by blast
  have step: "af_loop ei_af x smp (k # ks) ei acc = af_loop ei_af x smp ks ?ei ?acc"
    using k by (simp add: item_def bind_e_def iadd_same_shape [OF shp])
  have "\<forall>i < length acc. \<forall>j < length (acc ! i).
      acc' ! i ! j = acc ! i ! j + (\<Sum>k\<leftarrow>k # ks. ei_af (ei\<lparr>jitter := smp ! k\<rparr>) x ! i ! j)"
  proof (intro allI impI)
    fix i j
    assume i: "i < length acc" and j: "j < length (acc ! i)"
    from acc1 i have "length (?acc ! i) = length (acc ! i)"
      by (metis len1 nth_map)
    with val i j len1 have "acc' ! i ! j
        = ?acc ! i ! j + (\<Sum>k\<leftarrow>ks. ei_af (?ei\<lparr>jitter := smp ! k\<rparr>) x ! i ! j)"
      by simp
    also have "?acc ! i ! j = acc ! i ! j + ei_af ?ei x ! i ! j"
      using shp i j by (rule nth_madd)
    finally show "acc' ! i ! j
        = acc ! i ! j + (\<Sum>k\<leftarrow>k # ks. ei_af (ei\<lparr>jitter := smp ! k\<rparr>) x ! i ! j)"
      by simp
  qed
  with step run shape acc1 show ?case
    by (cases "ks = []") simp_all
qed

lemma afg_loop_split:
  assumes "af_loop (\<lambda>e x. fst (ei_afg e x)) x smp ks ei a = Inr (e1, a')"
    and "af_loop (\<lambda>e x. snd (ei_afg e x)) x smp ks ei g = Inr (e2, g')"
  shows "afg_loop ei_afg x smp ks ei a g = Inr (e1, a', g')"
  using assms
proof (induction ks arbitrary: ei a g)
  case Nil
  then show ?case by simp
next
  case (Cons k ks)
  from Cons.prems(1) obtain s where s: "item smp k = Inr s"
    by (cases "item smp k") (simp_all add: bind_e_def)
  let ?ei = "ei\<lparr>jitter := s\<rparr>"
  from Cons.prems(1) s obtain a1 where a1: "iadd a (fst (ei_afg ?ei x)) = Inr a1"
    and ra: "af_loop (\<lambda>e x. fst (ei_afg e x)) x smp ks ?ei a1 = Inr (e1, a')"
    by (cases "iadd a (fst (ei_afg ?ei x))") (simp_all add: bind_e_def)
  from Cons.prems(2) s obtain g1 where g1: "iadd g (snd (ei_afg ?ei x)) = Inr g1"
    and rg: "af_loop (\<lambda>e x. snd (ei_afg e x)) x smp ks ?ei g1 = Inr (e2, g')"
    by (cases "iadd g (snd (ei_afg ?ei x))") (simp_all add: bind_e_def)
  from Cons.IH [OF ra rg] s a1 g1 show ?case
    by (simp add: bind_e_def case_prod_unfold)
qed

lemma is_column_shape: "is_column x v \<Longrightarrow> map length v = map length (zeros (length x) 1)"
proof -
  assume "is_column x v"
  then have len: "length v = length x" and rows: "\<forall>r \<in> set v. length r = 1"
    by (simp_all add: is_column_def list_all_iff)
  from rows have "map length v = replicate (length v) 1"
    by (induction v) simp_all
  with len show ?thesis by (simp add: zeros_def)
qed

lemma shape_is_column: "map length v = map length (zeros (length x) 1) \<Longrightarrow> is_column x v"
proof -
  assume a: "map length v = map length (zeros (length x) 1)"
  then have "length v = length x" by (metis length_map length_replicate zeros_def)
  moreover have "\<forall>r \<in> set v. length r = 1"
  proof
    fix r assume "r \<in> set v"
    then have "length r \<in> set (map length v)" by simp
    with a show "length r = 1" by (auto simp: zeros_def)
  qed
  ultimately show ?thesis by (simp add: is_column_def list_all_iff)
qed

lemma shape_div_by: "map length (div_by a n) = map length a"
  by (simp add: div_by_def)

lemma nth_div_by: "i < length a \<Longrightarrow> j < length (a ! i) \<Longrightarrow> div_by a n ! i ! j = a ! i ! j / real n"
  by (simp add: div_by_def)

lemma sum_list_upt_mean: "(\<Sum>k\<leftarrow>[0..<n]. f k) / real n = mean n f"
  by (simp add: mean_def interv_sum_list_conv_sum_set_nat atLeast0LessThan)

lemma af_loop_mean:
  assumes "0 < n" and "length smp = n"
    and "\<forall>e. map length (ei_af e x) = map length acc"
    and "\<forall>r \<in> set acc. \<forall>v \<in> set r. v = 0"
  shows "\<exists>acc'. af_loop ei_af x smp [0..<n] ei acc = Inr (ei\<lparr>jitter := smp ! (n - 1)\<rparr>, acc')
           \<and> map length (div_by acc' n) = map length acc
           \<and> (\<forall>i < length acc. \<forall>j < length (acc ! i).
                 div_by acc' n ! i ! j = mean n (\<lambda>k. ei_af (ei\<lparr>jitter := smp ! k\<rparr>) x ! i ! j))"
proof -
  from assms(2) have "\<forall>k \<in> set [0..<n]. k < length smp" by simp
  from af_loop_sum [where ks = "[0..<n]" and smp = smp and ei_af = ei_af and x = x
      and acc = acc and ei = ei, OF this assms(3)] obtain acc' where
    run: "af_loop ei_af x smp [0..<n] ei acc
            = Inr (ei\<lparr>jitter := (if [0..<n] = [] then jitter ei else smp ! last [0..<n])\<rparr>, acc')"
    and shape: "map length acc' = map length acc"
    and val: "\<forall>i < length acc. \<forall>j < length (acc ! i).
           acc' ! i ! j = acc ! i ! j + (\<Sum>k\<leftarrow>[0..<n]. ei_af (ei\<lparr>jitter := smp ! k\<rparr>) x ! i ! j)"
    by blast
  from assms(1) have "[0..<n] \<noteq> []" and "last [0..<n] = n - 1"
    by (simp_all add: last_upt)
  with run have run': "af_loop ei_af x smp [0..<n] ei acc = Inr (ei\<lparr>jitter := smp ! (n - 1)\<rparr>, acc')"
    by simp
  from shape have len: "length acc' = length acc" by (metis length_map)
  have "\<forall>i < length acc. \<forall>j < length (acc ! i).
      div_by acc' n ! i ! j = mean n (\<lambda>k. ei_af (ei\<lparr>jitter := smp ! k\<rparr>) x ! i ! j)"
  proof (intro allI impI)
    fix i j
    assume i: "i < length acc" and j: "j < length (acc ! i)"
    from shape i len have li: "length (acc' ! i) = length (acc ! i)"
      by (metis nth_map)
    from i j assms(4) have z: "acc ! i ! j = 0"
      by (meson nth_mem)
    from i j len li have "div_by acc' n ! i ! j = acc' ! i ! j / real n"
      by (simp add: nth_div_by)
    also from val i j z have "acc' ! i ! j
        = (\<Sum>k\<leftarrow>[0..<n]. ei_af (ei\<lparr>jitter := smp ! k\<rparr>) x ! i ! j)"
      by simp
    finally show "div_by acc' n ! i ! j = mean n (\<lambda>k. ei_af (ei\<lparr>jitter := smp ! k\<rparr>) x ! i ! j)"
      by (simp add: sum_list_upt_mean)
  qed
  with run' shape show ?thesis by (auto simp: shape_div_by)
qed

lemma zeros_zero: "\<forall>r \<in> set (zeros n m). \<forall>v \<in> set r. v = 0"
  by (auto simp: zeros_def)

lemma zeros_like_zero: "\<forall>r \<in> set (zeros_like x). \<forall>v \<in> set r. v = 0"
  by (auto simp: zeros_like_def)

lemma shape_zeros_like: "map length (zeros_like x) = map length x"
  by (simp add: zeros_like_def)

lemma af_run:
  assumes "0 < num_samples self" and "length (samples self) = num_samples self"
    and "\<forall>e. is_column x (ei_af e x)"
  shows "\<exists>v. acquisition_function ei_af self x
             = Inr (v, self\<lparr>EI := (EI self)\<lparr>jitter := samples self ! (num_samples self - 1)\<rparr>\<rparr>)
           \<and> is_column x v
           \<and> (\<forall>i < length x.
                 v ! i ! 0 = mean (num_samples self)
                               (\<lambda>k. ei_af ((EI self)\<lparr>jitter := samples self ! k\<rparr>) x ! i ! 0))"
proof -
  let ?z = "zeros (length x) 1"
  from assms(3) have "\<forall>e. map length (ei_af e x) = map length ?z"
    by (blast intro: is_column_shape)
  from af_loop_mean [where ei_af = ei_af and x = x and acc = ?z and ei = "EI self",
      OF assms(1,2) this zeros_zero] obtain acc' where
    run: "af_loop ei_af x (samples self) [0..<num_samples self] (EI self) ?z
            = Inr ((EI self)\<lparr>jitter := samples self ! (num_samples self - 1)\<rparr>, acc')"
    and shape: "map length (div_by acc' (num_samples self)) = map length ?z"
    and val: "\<forall>i < length ?z. \<forall>j < length (?z ! i).
           div_by acc' (num_samples self) ! i ! j
             = mean (num_samples self)
                 (\<lambda>k. ei_af ((EI self)\<lparr>jitter := samples self ! k\<rparr>) x ! i ! j)"
    by blast
  from val have "\<forall>i < length x.
      div_by acc' (num_samples self) ! i ! 0
        = mean (num_samples self) (\<lambda>k. ei_af ((EI self)\<lparr>jitter := samples self ! k\<rparr>) x ! i ! 0)"
    by (simp add: zeros_def)
  with run shape_is_column [OF shape] show ?thesis
    by (simp add: acquisition_function_def bind_e_def)
qed

lemma afg_run:
  assumes "0 < num_samples self" and "length (samples self) = num_samples self"
    and "\<forall>e. is_column x (fst (ei_afg e x))"
    and "\<forall>e. same_shape x (snd (ei_afg e x))"
  shows "\<exists>v g. acquisition_function_withGradients ei_afg self x
             = Inr ((v, g), self\<lparr>EI := (EI self)\<lparr>jitter := samples self ! (num_samples self - 1)\<rparr>\<rparr>)
           \<and> is_column x v \<and> same_shape x g
           \<and> (\<forall>i < length x.
                 v ! i ! 0 = mean (num_samples self)
                   (\<lambda>k. fst (ei_afg ((EI self)\<lparr>jitter := samples self ! k\<rparr>) x) ! i ! 0))
           \<and> (\<forall>i < length x. \<forall>j < length (x ! i).
                 g ! i ! j = mean (num_samples self)
                   (\<lambda>k. snd (ei_afg ((EI self)\<lparr>jitter := samples self ! k\<rparr>) x) ! i ! j))"
proof -
  let ?z = "zeros (length x) 1"
  let ?zg = "zeros_like x"
  let ?n = "num_samples self"
  let ?e = "(EI self)\<lparr>jitter := samples self ! (?n - 1)\<rparr>"
  from assms(3) have "\<forall>e. map length ((\<lambda>e x. fst (ei_afg e x)) e x) = map length ?z"
    by (blast intro: is_column_shape)
  from af_loop_mean [where ei_af = "\<lambda>e x. fst (ei_afg e x)" and x = x and acc = ?z
      and ei = "EI self", OF assms(1,2) this zeros_zero] obtain a' where
    runa: "af_loop (\<lambda>e x. fst (ei_afg e x)) x (samples self) [0..<?n] (EI self) ?z = Inr (?e, a')"
    and shapea: "map length (div_by a' ?n) = map length ?z"
    and vala: "\<forall>i < length ?z. \<forall>j < length (?z ! i).
           div_by a' ?n ! i ! j
             = mean ?n (\<lambda>k. fst (ei_afg ((EI self)\<lparr>jitter := samples self ! k\<rparr>) x) ! i ! j)"
    by blast
  from assms(4) have "\<forall>e. map length ((\<lambda>e x. snd (ei_afg e x)) e x) = map length ?zg"
    by (simp add: same_shape_def shape_zeros_like)
  from af_loop_mean [where ei_af = "\<lambda>e x. snd (ei_afg e x)" and x = x and acc = ?zg
      and ei = "EI self", OF assms(1,2) this zeros_like_zero] obtain g' where
    rung: "af_loop (\<lambda>e x. snd (ei_afg e x)) x (samples self) [0..<?n] (EI self) ?zg = Inr (?e, g')"
    and shapeg: "map length (div_by g' ?n) = map length ?zg"
    and valg: "\<forall>i < length ?zg. \<forall>j < length (?zg ! i).
           div_by g' ?n ! i ! j
             = mean ?n (\<lambda>k. snd (ei_afg ((EI self)\<lparr>jitter := samples self ! k\<rparr>) x) ! i ! j)"
    by blast
  have run: "afg_loop ei_afg x (samples self) [0..<?n] (EI self) ?z ?zg = Inr (?e, a', g')"
    using runa rung by (rule afg_loop_split)
  from vala have va: "\<forall>i < length x.
      div_by a' ?n ! i ! 0
        = mean ?n (\<lambda>k. fst (ei_afg ((EI self)\<lparr>jitter := samples self ! k\<rparr>) x) ! i ! 0)"
    by (simp add: zeros_def)
  from valg have vg: "\<forall>i < length x. \<forall>j < length (x ! i).
      div_by g' ?n ! i ! j
        = mean ?n (\<lambda>k. snd (ei_afg ((EI self)\<lparr>jitter := samples self ! k\<rparr>) x) ! i ! j)"
    by (simp add: zeros_like_def)
  from shapeg have sg: "same_shape x (div_by g' ?n)"
    by (simp add: same_shape_def shape_zeros_like)
  from run va vg sg shape_is_column [OF shapea] show ?thesis
    by (simp add: acquisition_function_withGradients_def bind_e_def)
qed

lemmas demo_defs =
  demo_af_def demo_afg_def demo_self_def demo_x_def is_column_def same_shape_def

text \<open>
  Claim C2. Let the instance have \<open>num_samples > 0\<close> samples (as its constructor draws
  them) and let the wrapped methods return one value per row of \<open>x\<close> and a gradient of
  the shape of \<open>x\<close>. Then \<open>acquisition_function\<close> returns, and each entry of its
  result is the arithmetic mean over \<open>k = 0..num_samples-1\<close> of the wrapped
  \<open>acquisition_function\<close> evaluated with the jitter set to \<open>samples[k]\<close>;
  \<open>acquisition_function_withGradients\<close> returns the pair of such means of the wrapped
  values and of the wrapped gradients.
\<close>

theorem jitter_integrated_EI_mean:
  assumes "0 < num_samples self" and "length (samples self) = num_samples self"
    and "\<forall>e. is_column x (ei_af e x)"
    and "\<forall>e. is_column x (fst (ei_afg e x))"
    and "\<forall>e. same_shape x (snd (ei_afg e x))"
  shows "(\<exists>v self'. acquisition_function ei_af self x = Inr (v, self')
            \<and> is_column x v
            \<and> (\<forall>i < length x.
                  v ! i ! 0 = mean (num_samples self)
                    (\<lambda>k. ei_af ((EI self)\<lparr>jitter := samples self ! k\<rparr>) x ! i ! 0)))
       \<and> (\<exists>v g self'. acquisition_function_withGradients ei_afg self x = Inr ((v, g), self')
            \<and> is_column x v \<and> same_shape x g
            \<and> (\<forall>i < length x.
                  v ! i ! 0 = mean (num_samples self)
                    (\<lambda>k. fst (ei_afg ((EI self)\<lparr>jitter := samples self ! k\<rparr>) x) ! i ! 0))
            \<and> (\<forall>i < length x. \<forall>j < length (x ! i).
                  g ! i ! j = mean (num_samples self)
                    (\<lambda>k. snd (ei_afg ((EI self)\<lparr>jitter := samples self ! k\<rparr>) x) ! i ! j)))"
proof
  from af_run [where ei_af = ei_af and x = x, OF assms(1,2,3)]
  show "\<exists>v self'. acquisition_function ei_af self x = Inr (v, self')
            \<and> is_column x v
            \<and> (\<forall>i < length x.
                  v ! i ! 0 = mean (num_samples self)
                    (\<lambda>k. ei_af ((EI self)\<lparr>jitter := samples self ! k\<rparr>) x ! i ! 0))"
    by blast
next
  from afg_run [where ei_afg = ei_afg and x = x, OF assms(1,2,4,5)]
  show "\<exists>v g self'. acquisition_function_withGradients ei_afg self x = Inr ((v, g), self')
            \<and> is_column x v \<and> same_shape x g
            \<and> (\<forall>i < length x.
                  v ! i ! 0 = mean (num_samples self)
                    (\<lambda>k. fst (ei_afg ((EI self)\<lparr>jitter := samples self ! k\<rparr>) x) ! i ! 0))
            \<and> (\<forall>i < length x. \<forall>j < length (x ! i).
                  g ! i ! j = mean (num_samples self)
                    (\<lambda>k. snd (ei_afg ((EI self)\<lparr>jitter := samples self ! k\<rparr>) x) ! i ! j))"
    by blast
qed

theorem jitter_integrated_EI_mean_witness:
  "0 < num_samples demo_self \<and> length (samples demo_self) = num_samples demo_self
   \<and> (\<forall>e. is_column demo_x (demo_af e demo_x))
   \<and> (\<forall>e. is_column demo_x (fst (demo_afg e demo_x)))
   \<and> (\<forall>e. same_shape demo_x (snd (demo_afg e demo_x)))
   \<and> (\<exists>v self'. acquisition_function demo_af demo_self demo_x = Inr (v, self')
          \<and> v ! 0 ! 0 = mean 2 (\<lambda>k. demo_af ((EI demo_self)\<lparr>jitter := [1 / 4, 3 / 4] ! k\<rparr>) demo_x ! 0 ! 0))
   \<and> (\<exists>v g self'. acquisition_function_withGradients demo_afg demo_self demo_x = Inr ((v, g), self')
          \<and> g ! 1 ! 0 = mean 2 (\<lambda>k. snd (demo_afg ((EI demo_self)\<lparr>jitter := [1 / 4, 3 / 4] ! k\<rparr>) demo_x) ! 1 ! 0))"
proof -
  have h1: "0 < num_samples demo_self" by (simp add: demo_defs)
  have h2: "length (samples demo_self) = num_samples demo_self" by (simp add: demo_defs)
  have h3: "\<forall>e. is_column demo_x (demo_af e demo_x)" by (simp add: demo_defs)
  have h4: "\<forall>e. is_column demo_x (fst (demo_afg e demo_x))" by (simp add: demo_defs)
  have h5: "\<forall>e. same_shape demo_x (snd (demo_afg e demo_x))" by (simp add: demo_defs)
  have n: "num_samples demo_self = 2" "samples demo_self = [1 / 4, 3 / 4]"
    "0 < length demo_x" "1 < length demo_x" "0 < length (demo_x ! 1)"
    by (simp_all add: demo_self_def demo_x_def)
  from jitter_integrated_EI_mean [where ei_af = demo_af and ei_afg = demo_afg and x = demo_x,
      OF h1 h2 h3 h4 h5] n h1 h2 h3 h4 h5 show ?thesis
    by (simp only:) blast
qed

text \<open>
  Claim C10. Under the same conditions both methods return, and the instance they leave
  differs from the one they were called on in the jitter of the wrapped object only: it is
  \<open>samples[num_samples-1]\<close>, while \<open>par_a\<close>, \<open>par_b\<close>, \<open>num_samples\<close> and \<open>samples\<close>
  (and the rest of the wrapped object) are as before.
\<close>

theorem jitter_left_at_last_sample:
  assumes "0 < num_samples self" and "length (samples self) = num_samples self"
    and "\<forall>e. is_column x (ei_af e x)"
    and "\<forall>e. is_column x (fst (ei_afg e x))"
    and "\<forall>e. same_shape x (snd (ei_afg e x))"
  shows "(\<exists>v self'. acquisition_function ei_af self x = Inr (v, self')
            \<and> jitter (EI self') = samples self ! (num_samples self - 1)
            \<and> ei_state (EI self') = ei_state (EI self)
            \<and> par_a self' = par_a self \<and> par_b self' = par_b self
            \<and> num_samples self' = num_samples self \<and> samples self' = samples self)
       \<and> (\<exists>v self'. acquisition_function_withGradients ei_afg self x = Inr (v, self')
            \<and> jitter (EI self') = samples self ! (num_samples self - 1)
            \<and> ei_state (EI self') = ei_state (EI self)
            \<and> par_a self' = par_a self \<and> par_b self' = par_b self
            \<and> num_samples self' = num_samples self \<and> samples self' = samples self)"
proof
  from af_run [where ei_af = ei_af and x = x, OF assms(1,2,3)] obtain v where
    "acquisition_function ei_af self x
       = Inr (v, self\<lparr>EI := (EI self)\<lparr>jitter := samples self ! (num_samples self - 1)\<rparr>\<rparr>)"
    by blast
  then show "\<exists>v self'. acquisition_function ei_af self x = Inr (v, self')
            \<and> jitter (EI self') = samples self ! (num_samples self - 1)
            \<and> ei_state (EI self') = ei_state (EI self)
            \<and> par_a self' = par_a self \<and> par_b self' = par_b self
            \<and> num_samples self' = num_samples self \<and> samples self' = samples self"
    by simp
next
  from afg_run [where ei_afg = ei_afg and x = x, OF assms(1,2,4,5)] obtain v g where
    "acquisition_function_withGradients ei_afg self x
       = Inr ((v, g), self\<lparr>EI := (EI self)\<lparr>jitter := samples self ! (num_samples self - 1)\<rparr>\<rparr>)"
    by blast
  then show "\<exists>v self'. acquisition_function_withGradients ei_afg self x = Inr (v, self')
            \<and> jitter (EI self') = samples self ! (num_samples self - 1)
            \<and> ei_state (EI self') = ei_state (EI self)
            \<and> par_a self' = par_a self \<and> par_b self' = par_b self
            \<and> num_samples self' = num_samples self \<and> samples self' = samples self"
    by simp
qed

theorem jitter_left_at_last_sample_witness:
  "0 < num_samples demo_self \<and> length (samples demo_self) = num_samples demo_self
   \<and> (\<forall>e. is_column demo_x (demo_af e demo_x))
   \<and> (\<forall>e. is_column demo_x (fst (demo_afg e demo_x)))
   \<and> (\<forall>e. same_shape demo_x (snd (demo_afg e demo_x)))
   \<and> (\<exists>v self'. acquisition_function demo_af demo_self demo_x = Inr (v, self')
          \<and> jitter (EI self') = 3 / 4 \<and> samples self' = [1 / 4, 3 / 4])
   \<and> (\<exists>v self'. acquisition_function_withGradients demo_afg demo_self demo_x = Inr (v, self')
          \<and> jitter (EI self') = 3 / 4 \<and> samples self' = [1 / 4, 3 / 4])"
proof -
  have h1: "0 < num_samples demo_self" by (simp add: demo_defs)
  have h2: "length (samples demo_self) = num_samples demo_self" by (simp add: demo_defs)
  have h3: "\<forall>e. is_column demo_x (demo_af e demo_x)" by (simp add: demo_defs)
  have h4: "\<forall>e. is_column demo_x (fst (demo_afg e demo_x))" by (simp add: demo_defs)
  have h5: "\<forall>e. same_shape demo_x (snd (demo_afg e demo_x))" by (simp add: demo_defs)
  have n: "samples demo_self ! (num_samples demo_self - 1) = 3 / 4"
    "samples demo_self = [1 / 4, 3 / 4]"
    by (simp_all add: demo_self_def)
  from jitter_left_at_last_sample [where ei_af = demo_af and ei_afg = demo_afg and x = demo_x,
      OF h1 h2 h3 h4 h5] n h1 h2 h3 h4 h5 show ?thesis
    by (simp only:) blast
qed


section \<open>Construction and the optimization calls: properties\<close>

text \<open>
  Claim C5, as amended. The array of jitter values is made by the class's own constructor:
  \<open>samples\<close> is what one call \<open>beta(par_a, par_b, num_samples)\<close> of numpy's sampler
  returns at the generator's state at construction time, and the generator is left in the
  state after that draw. It is not among the constructor's arguments.
\<close>

theorem samples_drawn_by_constructor:
  "samples (fst (jitter_integrated_EI_init beta new_EI ctx a b n g)) = fst (beta a b n g)
   \<and> snd (jitter_integrated_EI_init beta new_EI ctx a b n g) = snd (beta a b n g)
   \<and> par_a (fst (jitter_integrated_EI_init beta new_EI ctx a b n g)) = a
   \<and> par_b (fst (jitter_integrated_EI_init beta new_EI ctx a b n g)) = b
   \<and> num_samples (fst (jitter_integrated_EI_init beta new_EI ctx a b n g)) = n
   \<and> EI (fst (jitter_integrated_EI_init beta new_EI ctx a b n g)) = new_EI ctx"
  by (simp add: jitter_integrated_EI_init_def case_prod_unfold Let_def)

text \<open>
  Claim C5 as stated fails: the array is not fixed by what is supplied to the constructor.
  Two constructions with the same arguments, made at two states of the generator, hold
  different samples.
\<close>

theorem samples_depend_on_construction_time:
  "samples (fst (jitter_integrated_EI_init demo_beta demo_new_EI () 1 10 2 0)) = [1 / 2, 1 / 3]
   \<and> samples (fst (jitter_integrated_EI_init demo_beta demo_new_EI () 1 10 2 5)) = [1 / 7, 1 / 8]
   \<and> samples (fst (jitter_integrated_EI_init demo_beta demo_new_EI () 1 10 2 0))
       \<noteq> samples (fst (jitter_integrated_EI_init demo_beta demo_new_EI () 1 10 2 5))"
proof -
  have u: "[0..<2] = [0, 1]" by (simp add: upt_rec)
  show ?thesis
    by (simp add: jitter_integrated_EI_init_def demo_beta_def u Let_def)
qed

text \<open>
  Claim C7. Each notebook calls \<open>run_optimization\<close> exactly once. The bandit notebook
  passes the value 50 of its variable \<open>max_iter\<close> as the first positional argument, the
  modular notebook passes the value 10 of its variable as the keyword \<open>max_iter\<close>; with
  \<open>max_iter\<close> the first parameter of GPyOpt's \<open>run_optimization\<close>, whatever the others
  are, \<open>max_iter\<close> is the only parameter either call sets. No call of either notebook sets
  a keyword \<open>max_time\<close> or \<open>eps\<close>.
\<close>

theorem run_optimization_once_with_max_iter:
  "run_optimization_calls bandit_notebook 
       = [Event ''myBopt'' ''run_optimization'' [PInt 50] []]
   \<and> run_optimization_calls modular_notebook
       = [Event ''bo'' ''run_optimization'' [] [(''max_iter'', PInt 10)]]
   \<and> map (bound (''max_iter'' # rest)) (run_optimization_calls bandit_notebook)
       = [[(''max_iter'', PInt 50)]]
   \<and> map (bound (''max_iter'' # rest)) (run_optimization_calls modular_notebook)
       = [[(''max_iter'', PInt 10)]]
   \<and> list_all (sets_none_of [''max_time'', ''eps''])
        (run [] bandit_notebook @ run [] modular_notebook)"
  by (simp add: run_optimization_calls_def bandit_notebook_def modular_notebook_def bound_def
      sets_none_of_def)

end
